theory Spec2Isabelle
  imports Complex_Main "HOL-Library.Multiset"
begin

section \<open>Event platform: the event collection and its routes\<close>

text \<open>
  A shallow embedding of \<^verbatim>\<open>backend/models/Event.js\<close> (the Mongoose schema of an event)
  and \<^verbatim>\<open>backend/routes/events.js\<close> (the Express router over the event collection).
  Every route is a function from the collection before the request to the reply and the
  collection after it. A route runs from its first read to its last write without another
  request in between: concurrent requests are outside this development.
\<close>

subsection \<open>JavaScript values used by the routes\<close>

text \<open>
  A JavaScript string is the list of its UTF-16 code units, each a number below
  \<open>2 ^ 16\<close>. \<open>code_unit\<close> is the code unit of an ASCII character and \<open>js\<close> the
  JavaScript string of an ASCII literal.
\<close>

type_synonym js_string = "nat list"

definition code_unit :: "char \<Rightarrow> nat" where
  "code_unit c = of_char c"

definition js :: "string \<Rightarrow> js_string" where
  "js s = map code_unit s"

text \<open>
  The router sits behind \<^verbatim>\<open>upload.single('image')\<close> and the client posts
  \<^verbatim>\<open>FormData\<close>, so every field of \<^verbatim>\<open>req.body\<close> is a string or is absent
  (\<^verbatim>\<open>undefined\<close>). A field is truthy when it is a non-empty string: \<open>given\<close> returns
  the string in that case.
\<close>

definition given :: "js_string option \<Rightarrow> js_string option" where
  "given v = (case v of None \<Rightarrow> None | Some s \<Rightarrow> if s = [] then None else Some s)"

text \<open>
  White space as \<^verbatim>\<open>String.prototype.trim\<close> and \<^verbatim>\<open>parseInt\<close> skip it, after
  ECMAScript: the white space characters (tab, vertical tab, form feed, the byte order
  mark U+FEFF and the space separators of Unicode: U+0020, U+00A0, U+1680, U+2000 to
  U+200A, U+202F, U+205F, U+3000) and the line terminators (line feed, carriage return,
  U+2028, U+2029).
\<close>

definition is_space :: "nat \<Rightarrow> bool" where
  "is_space c =
     (c \<in> set [0x0009, 0x000A, 0x000B, 0x000C, 0x000D, 0x0020, 0x00A0, 0x1680,
               0x2028, 0x2029, 0x202F, 0x205F, 0x3000, 0xFEFF]
      \<or> (0x2000 \<le> c \<and> c \<le> 0x200A))"

definition trim :: "js_string \<Rightarrow> js_string" where
  "trim s = rev (dropWhile is_space (rev (dropWhile is_space s)))"

text \<open>
  \<^verbatim>\<open>parseInt(string)\<close> with no radix, after ECMAScript: skip leading white space, read
  an optional sign, switch to radix 16 after a \<^verbatim>\<open>0x\<close> or \<^verbatim>\<open>0X\<close> prefix and stay at
  radix 10 otherwise, read the longest prefix of digits of that radix, and return
  \<^verbatim>\<open>NaN\<close> (here \<open>None\<close>) when that prefix is empty. The result is the mathematical
  integer the digits denote. JavaScript returns the double nearest to it, which is that
  integer when its magnitude is at most \<open>2 ^ 53\<close> (so for every string of at most 15
  digits); the theorems that name the number \<^verbatim>\<open>parseInt\<close> returns stay within that
  range.
\<close>

definition digit_val :: "nat \<Rightarrow> nat option" where
  "digit_val c =
     (if code_unit CHR ''0'' \<le> c \<and> c \<le> code_unit CHR ''9'' then Some (c - code_unit CHR ''0'')
      else if code_unit CHR ''a'' \<le> c \<and> c \<le> code_unit CHR ''f''
      then Some (c - code_unit CHR ''a'' + 10)
      else if code_unit CHR ''A'' \<le> c \<and> c \<le> code_unit CHR ''F''
      then Some (c - code_unit CHR ''A'' + 10)
      else None)"

definition is_digit_in :: "nat \<Rightarrow> nat \<Rightarrow> bool" where
  "is_digit_in R c = (case digit_val c of None \<Rightarrow> False | Some v \<Rightarrow> v < R)"

definition radix_value :: "nat \<Rightarrow> js_string \<Rightarrow> nat" where
  "radix_value R Z =
     foldl (\<lambda>acc c. acc * R + (case digit_val c of None \<Rightarrow> 0 | Some v \<Rightarrow> v)) 0 Z"

definition parseInt :: "js_string \<Rightarrow> int option" where
  "parseInt inputString =
     (let S = dropWhile is_space inputString;
          neg = (case S of [] \<Rightarrow> False | c # _ \<Rightarrow> c = code_unit CHR ''-'');
          S1 = (case S of [] \<Rightarrow> []
                | c # cs \<Rightarrow>
                    if c = code_unit CHR ''+'' \<or> c = code_unit CHR ''-'' then cs else S);
          hex = (case S1 of
                   a # b # _ \<Rightarrow>
                     a = code_unit CHR ''0'' \<and>
                     (b = code_unit CHR ''x'' \<or> b = code_unit CHR ''X'')
                 | _ \<Rightarrow> False);
          R = (if hex then 16 else 10);
          S2 = (if hex then drop 2 S1 else S1);
          Z = takeWhile (is_digit_in R) S2
      in if Z = [] then None
         else Some ((if neg then - 1 else 1) * int (radix_value R Z)))"

text \<open>
  \<^verbatim>\<open>Array.prototype.findIndex\<close> (the first index whose element satisfies the predicate,
  \<open>-1\<close> when there is none) and \<^verbatim>\<open>Array.prototype.splice(start, 1)\<close> (a negative
  \<open>start\<close> counts from the end, and \<open>start\<close> is clamped to the array).
\<close>

fun findIndex :: "('a \<Rightarrow> bool) \<Rightarrow> 'a list \<Rightarrow> int" where
  "findIndex p [] = - 1"
| "findIndex p (x # xs) =
     (if p x then 0 else (let i = findIndex p xs in if i = - 1 then - 1 else i + 1))"

definition splice1 :: "'a list \<Rightarrow> int \<Rightarrow> 'a list" where
  "splice1 xs start =
     (let len = int (length xs);
          s = (if start < 0 then max (len + start) 0 else min start len)
      in take (nat s) xs @ drop (nat s + 1) xs)"

subsection \<open>The event schema\<close>

text \<open>
  An \<^verbatim>\<open>ObjectId\<close> is its 12-byte value. The routes receive validated identifiers, so
  \<^verbatim>\<open>attendee.toString() === req.user.id\<close> is equality of identifiers. A date is its time
  value in milliseconds. The record holds the paths the schema declares; the fields
  Mongoose keeps for itself (\<^verbatim>\<open>createdAt\<close>, \<^verbatim>\<open>updatedAt\<close>, \<^verbatim>\<open>__v\<close>) are left out.
\<close>

type_synonym object_id = nat

record event =
  event_id :: object_id
  title :: js_string
  description :: js_string
  date :: int
  location :: js_string
  capacity :: int
  attendees :: "object_id list"
  image_path :: js_string
  creator :: object_id

text \<open>
  The validators of the schema, run by \<^verbatim>\<open>save\<close> on every path of the document:
  \<^verbatim>\<open>required\<close> rejects an empty string, \<^verbatim>\<open>min: 1\<close> rejects a capacity below 1.
  (\<^verbatim>\<open>date\<close> and \<^verbatim>\<open>creator\<close> hold a value in every record.)
\<close>

definition valid_event :: "event \<Rightarrow> bool" where
  "valid_event e =
     (title e \<noteq> [] \<and> description e \<noteq> [] \<and> location e \<noteq> [] \<and> 1 \<le> capacity e)"

datatype error = ValidationError | DuplicateKey

text \<open>
  A document in memory is \<open>None\<close> once a value assigned to one of its paths could not be
  cast (a capacity that is \<^verbatim>\<open>NaN\<close>, a string that is no date): Mongoose records the cast
  error on the document and \<^verbatim>\<open>save\<close> rejects it.
\<close>

type_synonym document = "event option"

type_synonym collection = "event list"

definition findById :: "collection \<Rightarrow> object_id \<Rightarrow> event option" where
  "findById db i = find (\<lambda>e. event_id e = i) db"

definition validate :: "document \<Rightarrow> error + event" where
  "validate doc =
     (case doc of None \<Rightarrow> Inl ValidationError
      | Some e \<Rightarrow> if valid_event e then Inr e else Inl ValidationError)"

text \<open>\<^verbatim>\<open>save\<close> of a new document: validate, then insert under a fresh \<^verbatim>\<open>_id\<close>.\<close>

definition save_new :: "collection \<Rightarrow> document \<Rightarrow> error + collection" where
  "save_new db doc =
     (case validate doc of Inl err \<Rightarrow> Inl err
      | Inr e \<Rightarrow>
          if list_ex (\<lambda>d. event_id d = event_id e) db then Inl DuplicateKey
          else Inr (db @ [e]))"

text \<open>\<^verbatim>\<open>save\<close> of a document that was read from the collection: validate, then write it
  over the stored document with the same \<^verbatim>\<open>_id\<close>.\<close>

definition written :: "collection \<Rightarrow> event \<Rightarrow> collection" where
  "written db e = map (\<lambda>d. if event_id d = event_id e then e else d) db"

definition save :: "collection \<Rightarrow> document \<Rightarrow> error + collection" where
  "save db doc =
     (case validate doc of Inl err \<Rightarrow> Inl err | Inr e \<Rightarrow> Inr (written db e))"

subsection \<open>Requests and replies\<close>

record body =
  req_title :: "js_string option"
  req_description :: "js_string option"
  req_date :: "js_string option"
  req_location :: "js_string option"
  req_capacity :: "js_string option"

text \<open>
  The replies the router sends: a status with \<^verbatim>\<open>{message}\<close>, the status 500 with
  \<^verbatim>\<open>{message, error}\<close>, a status with a document (\<open>None\<close> is \<^verbatim>\<open>null\<close>), a status
  with \<^verbatim>\<open>{message, event}\<close>, and a status with a list of documents. \<^verbatim>\<open>populate\<close>
  replaces identifiers by the users' names and addresses for display and is left out.
\<close>

datatype reply =
    Message nat string
  | Failure nat string error
  | Document nat "event option"
  | MessageEvent nat string "event option"
  | Documents nat "event list"

subsection \<open>The routes\<close>

text \<open>\<^verbatim>\<open>GET /\<close>, \<^verbatim>\<open>GET /user/created\<close> and \<^verbatim>\<open>GET /user/attending\<close>:
  \<^verbatim>\<open>Event.find(query).sort({ date: 1 })\<close>.\<close>

definition list_events :: "collection \<Rightarrow> reply" where
  "list_events db = Documents 200 (sort_key date db)"

definition user_created :: "collection \<Rightarrow> object_id \<Rightarrow> reply" where
  "user_created db uid = Documents 200 (sort_key date (filter (\<lambda>e. creator e = uid) db))"

definition user_attending :: "collection \<Rightarrow> object_id \<Rightarrow> reply" where
  "user_attending db uid =
     Documents 200 (sort_key date (filter (\<lambda>e. uid \<in> set (attendees e)) db))"

text \<open>\<^verbatim>\<open>GET /:id\<close>.\<close>

definition get_event :: "collection \<Rightarrow> object_id \<Rightarrow> reply" where
  "get_event db i =
     (case findById db i of None \<Rightarrow> Message 404 ''Event not found''
      | Some e \<Rightarrow> Document 200 (Some e))"

text \<open>
  \<^verbatim>\<open>POST /\<close>. \<open>castDate\<close> is Mongoose's cast of a string to a date (\<open>None\<close> when the
  string is no date), \<open>new_id\<close> the \<^verbatim>\<open>ObjectId\<close> generated for the new document,
  \<open>uid\<close> is \<^verbatim>\<open>req.user.id\<close> and \<open>req_file\<close> the name of the uploaded file, if any.
  The setters of the schema trim \<^verbatim>\<open>title\<close> and \<^verbatim>\<open>location\<close>.
\<close>

definition new_Event ::
  "(js_string \<Rightarrow> int option) \<Rightarrow> object_id \<Rightarrow> js_string \<Rightarrow> js_string \<Rightarrow> js_string \<Rightarrow>
   js_string \<Rightarrow> int option \<Rightarrow> object_id \<Rightarrow> js_string \<Rightarrow> document" where
  "new_Event castDate new_id t d dt l c uid img =
     (case castDate dt of None \<Rightarrow> None
      | Some when \<Rightarrow>
          (case c of None \<Rightarrow> None
           | Some n \<Rightarrow>
               Some \<lparr>event_id = new_id, title = trim t, description = d, date = when,
                     location = trim l, capacity = n, attendees = [],
                     image_path = img, creator = uid\<rparr>))"

definition create_event ::
  "(js_string \<Rightarrow> int option) \<Rightarrow> collection \<Rightarrow> object_id \<Rightarrow> object_id \<Rightarrow> body \<Rightarrow>
   js_string option \<Rightarrow> reply \<times> collection" where
  "create_event castDate db new_id uid b req_file =
     (case (given (req_title b), given (req_description b), given (req_date b),
            given (req_location b), given (req_capacity b)) of
        (Some t, Some d, Some dt, Some l, Some c) \<Rightarrow>
          (let doc = new_Event castDate new_id t d dt l (parseInt c) uid
                       (case req_file of None \<Rightarrow> [] | Some name \<Rightarrow> js ''/uploads/'' @ name)
           in case save_new db doc of
                Inl err \<Rightarrow> (Failure 500 ''Server error'' err, db)
              | Inr db' \<Rightarrow> (Document 201 (findById db' new_id), db'))
      | _ \<Rightarrow> (Message 400 ''Please provide all required fields'', db))"

text \<open>\<^verbatim>\<open>PUT /:id\<close>: each field of the body that is truthy is assigned to the document.\<close>

definition assign_fields ::
  "(js_string \<Rightarrow> int option) \<Rightarrow> event \<Rightarrow> body \<Rightarrow> js_string option \<Rightarrow> document" where
  "assign_fields castDate event b req_file =
     (let e1 = (case given (req_title b) of None \<Rightarrow> event
                | Some t \<Rightarrow> event\<lparr>title := trim t\<rparr>);
          e2 = (case given (req_description b) of None \<Rightarrow> e1
                | Some d \<Rightarrow> e1\<lparr>description := d\<rparr>);
          d3 = (case given (req_date b) of None \<Rightarrow> Some e2
                | Some dt \<Rightarrow> map_option (\<lambda>when. e2\<lparr>date := when\<rparr>) (castDate dt));
          d4 = (case given (req_location b) of None \<Rightarrow> d3
                | Some l \<Rightarrow> map_option (\<lambda>e. e\<lparr>location := trim l\<rparr>) d3);
          d5 = (case given (req_capacity b) of None \<Rightarrow> d4
                | Some c \<Rightarrow>
                    (case parseInt c of None \<Rightarrow> None
                     | Some n \<Rightarrow> map_option (\<lambda>e. e\<lparr>capacity := n\<rparr>) d4))
      in case req_file of None \<Rightarrow> d5
         | Some name \<Rightarrow> map_option (\<lambda>e. e\<lparr>image_path := js ''/uploads/'' @ name\<rparr>) d5)"

definition update_event ::
  "(js_string \<Rightarrow> int option) \<Rightarrow> collection \<Rightarrow> object_id \<Rightarrow> object_id \<Rightarrow> body \<Rightarrow>
   js_string option \<Rightarrow> reply \<times> collection" where
  "update_event castDate db i uid b req_file =
     (case findById db i of
        None \<Rightarrow> (Message 404 ''Event not found'', db)
      | Some event \<Rightarrow>
          if creator event \<noteq> uid
          then (Message 403 ''Not authorized to update this event'', db)
          else (case save db (assign_fields castDate event b req_file) of
                  Inl err \<Rightarrow> (Failure 500 ''Server error'' err, db)
                | Inr db' \<Rightarrow> (Document 200 (findById db' (event_id event)), db')))"

text \<open>\<^verbatim>\<open>DELETE /:id\<close> (the image file on disk is outside the collection).\<close>

definition delete_event :: "collection \<Rightarrow> object_id \<Rightarrow> object_id \<Rightarrow> reply \<times> collection" where
  "delete_event db i uid =
     (case findById db i of
        None \<Rightarrow> (Message 404 ''Event not found'', db)
      | Some event \<Rightarrow>
          if creator event \<noteq> uid
          then (Message 403 ''Not authorized to delete this event'', db)
          else (Message 200 ''Event deleted successfully'',
                filter (\<lambda>d. event_id d \<noteq> i) db))"

text \<open>
  \<^verbatim>\<open>POST /:id/rsvp\<close>, at the time \<open>now\<close> (\<^verbatim>\<open>new Date()\<close>). Every rejection aborts the
  transaction, so the collection is the one before the request.
\<close>

definition rsvp :: "collection \<Rightarrow> int \<Rightarrow> object_id \<Rightarrow> object_id \<Rightarrow> reply \<times> collection" where
  "rsvp db now i uid =
     (case findById db i of
        None \<Rightarrow> (Message 404 ''Event not found'', db)
      | Some event \<Rightarrow>
          if date event < now then (Message 400 ''Cannot RSVP to past events'', db)
          else if list_ex (\<lambda>attendee. attendee = uid) (attendees event)
          then (Message 400 ''You are already registered for this event'', db)
          else if capacity event \<le> int (length (attendees event))
          then (Message 400 ''Event is full'', db)
          else (case save db (Some (event\<lparr>attendees := attendees event @ [uid]\<rparr>)) of
                  Inl err \<Rightarrow> (Failure 500 ''RSVP failed'' err, db)
                | Inr db' \<Rightarrow>
                    (MessageEvent 200 ''RSVP successful'' (findById db' (event_id event)),
                     db')))"

text \<open>\<^verbatim>\<open>POST /:id/cancel-rsvp\<close>.\<close>

definition cancel_rsvp :: "collection \<Rightarrow> object_id \<Rightarrow> object_id \<Rightarrow> reply \<times> collection" where
  "cancel_rsvp db i uid =
     (case findById db i of
        None \<Rightarrow> (Message 404 ''Event not found'', db)
      | Some event \<Rightarrow>
          (let attendeeIndex = findIndex (\<lambda>attendee. attendee = uid) (attendees event)
           in if attendeeIndex = - 1
              then (Message 400 ''You are not registered for this event'', db)
              else (case save db (Some (event\<lparr>attendees :=
                                          splice1 (attendees event) attendeeIndex\<rparr>)) of
                      Inl err \<Rightarrow> (Failure 500 ''Server error'' err, db)
                    | Inr db' \<Rightarrow>
                        (MessageEvent 200 ''RSVP cancelled successfully''
                           (findById db' (event_id event)), db'))))"

subsection \<open>Outcomes and invariants of the registration core\<close>

text \<open>
  The outcomes of \<open>register\<close> and \<open>cancel\<close> are the replies of the two routes: the
  router sends each outcome as the status and message below, and a success carries the
  event as it is read back after the write.
\<close>

definition EventNotFound :: reply where
  "EventNotFound = Message 404 ''Event not found''"

definition EventEnded :: reply where
  "EventEnded = Message 400 ''Cannot RSVP to past events''"

definition AlreadyRegistered :: reply where
  "AlreadyRegistered = Message 400 ''You are already registered for this event''"

definition Full :: reply where
  "Full = Message 400 ''Event is full''"

definition NotRegistered :: reply where
  "NotRegistered = Message 400 ''You are not registered for this event''"

definition Registered :: "event \<Rightarrow> reply" where
  "Registered e = MessageEvent 200 ''RSVP successful'' (Some e)"

definition Cancelled :: "event \<Rightarrow> reply" where
  "Cancelled e = MessageEvent 200 ''RSVP cancelled successfully'' (Some e)"

definition within_capacity :: "event \<Rightarrow> bool" where
  "within_capacity e = (int (length (attendees e)) \<le> capacity e)"

definition no_duplicates :: "event \<Rightarrow> bool" where
  "no_duplicates e = distinct (attendees e)"

definition event_inv :: "event \<Rightarrow> bool" where
  "event_inv e = (within_capacity e \<and> no_duplicates e)"

subsection \<open>The router\<close>

text \<open>
  The requests the router serves, one constructor for each route, with the values the
  route reads from the request (and, for \<open>Rsvp\<close>, the time of the request), and the
  dispatch of a request to its route. \<open>run\<close> serves a list of requests one after the
  other, starting from the empty collection.
\<close>

datatype request =
    ListEvents
  | GetEvent object_id
  | CreateEvent object_id object_id body "js_string option"
  | UpdateEvent object_id object_id body "js_string option"
  | DeleteEvent object_id object_id
  | Rsvp int object_id object_id
  | CancelRsvp object_id object_id
  | UserCreated object_id
  | UserAttending object_id

fun handle :: "(js_string \<Rightarrow> int option) \<Rightarrow> collection \<Rightarrow> request \<Rightarrow> reply \<times> collection" where
  "handle castDate db ListEvents = (list_events db, db)"
| "handle castDate db (GetEvent i) = (get_event db i, db)"
| "handle castDate db (CreateEvent new_id uid b req_file) =
     create_event castDate db new_id uid b req_file"
| "handle castDate db (UpdateEvent i uid b req_file) =
     update_event castDate db i uid b req_file"
| "handle castDate db (DeleteEvent i uid) = delete_event db i uid"
| "handle castDate db (Rsvp now i uid) = rsvp db now i uid"
| "handle castDate db (CancelRsvp i uid) = cancel_rsvp db i uid"
| "handle castDate db (UserCreated uid) = (user_created db uid, db)"
| "handle castDate db (UserAttending uid) = (user_attending db uid, db)"

definition run :: "(js_string \<Rightarrow> int option) \<Rightarrow> request list \<Rightarrow> collection" where
  "run castDate rs = foldl (\<lambda>db r. snd (handle castDate db r)) [] rs"

subsection \<open>Capacities as the claims speak of them\<close>

text \<open>
  A capacity edit fits when the update request names no capacity, or names one that
  \<^verbatim>\<open>parseInt\<close> reads as a number not below the number of attendees of the event.
\<close>

definition capacity_edit_fits :: "collection \<Rightarrow> object_id \<Rightarrow> body \<Rightarrow> bool" where
  "capacity_edit_fits db i b =
     (case findById db i of None \<Rightarrow> True
      | Some e \<Rightarrow>
          (case given (req_capacity b) of None \<Rightarrow> True
           | Some c \<Rightarrow>
               (case parseInt c of None \<Rightarrow> False
                | Some n \<Rightarrow> int (length (attendees e)) \<le> n)))"

text \<open>
  The number a decimal numeral denotes, written down from the notation and not from
  \<^verbatim>\<open>parseInt\<close>: a decimal digit is one of the characters \<^verbatim>\<open>0\<close> to \<^verbatim>\<open>9\<close>, digits
  \<open>d\<^sub>1 \<dots> d\<^sub>k\<close> denote the sum of the \<open>d\<^sub>j * 10 ^ (k - j)\<close>, and the numeral with an
  optional minus sign, the digits \<open>ip\<close> before the point and the digits \<open>fp\<close> after it
  denotes plus or minus \<open>ip + fp / 10 ^ length fp\<close>. \<open>trunc_toward_zero\<close> is the
  truncation of a number toward zero.
\<close>

definition decimal_digits :: "js_string \<Rightarrow> bool" where
  "decimal_digits s = list_all (\<lambda>c. c \<in> set (js ''0123456789'')) s"

fun numeral_value :: "js_string \<Rightarrow> nat" where
  "numeral_value [] = 0"
| "numeral_value (c # cs) = (c - 48) * 10 ^ length cs + numeral_value cs"

definition decimal_numeral :: "bool \<Rightarrow> js_string \<Rightarrow> js_string \<Rightarrow> js_string" where
  "decimal_numeral neg ip fp = (if neg then js ''-'' else []) @ ip @ js ''.'' @ fp"

definition decimal_value :: "bool \<Rightarrow> js_string \<Rightarrow> js_string \<Rightarrow> rat" where
  "decimal_value neg ip fp =
     (if neg then - 1 else 1) *
     (of_nat (numeral_value ip) + of_nat (numeral_value fp) / 10 ^ length fp)"

definition trunc_toward_zero :: "rat \<Rightarrow> int" where
  "trunc_toward_zero x = (if 0 \<le> x then \<lfloor>x\<rfloor> else \<lceil>x\<rceil>)"

subsection \<open>Sample data\<close>

text \<open>
  An instance of the date cast that knows two days, a user who creates events, and the
  events and requests of the examples below.
\<close>

definition sample_castDate :: "js_string \<Rightarrow> int option" where
  "sample_castDate s =
     (if s = js ''2030-01-01'' then Some 1893456000000
      else if s = js ''2020-01-01'' then Some 1577836800000
      else None)"

definition party :: event where
  "party = \<lparr>event_id = 101, title = js ''Party'', description = js ''Bring cake'',
            date = 1893456000000, location = js ''Hall'', capacity = 3,
            attendees = [10, 11], image_path = [], creator = 7\<rparr>"

definition reunion :: event where
  "reunion = \<lparr>event_id = 102, title = js ''Reunion'', description = js ''Class of 2010'',
              date = 1577836800000, location = js ''School'', capacity = 2,
              attendees = [10, 12], image_path = [], creator = 8\<rparr>"

definition picnic :: "int \<Rightarrow> event" where
  "picnic n = \<lparr>event_id = 103, title = js ''Picnic'', description = js ''Lunch outside'',
               date = 1893456000000, location = js ''Park'', capacity = n,
               attendees = [], image_path = [], creator = 7\<rparr>"

definition sample_body :: "js_string \<Rightarrow> body" where
  "sample_body c =
     \<lparr>req_title = Some (js ''  Picnic ''), req_description = Some (js ''Lunch outside''),
      req_date = Some (js ''2030-01-01''), req_location = Some (js ''Park''),
      req_capacity = Some c\<rparr>"

definition capacity_only :: "js_string \<Rightarrow> body" where
  "capacity_only c =
     \<lparr>req_title = None, req_description = None, req_date = None, req_location = None,
      req_capacity = Some c\<rparr>"

section \<open>Properties of the routes\<close>

subsection \<open>Lookup, arrays and save\<close>

lemma findById_SomeD: "findById db i = Some e \<Longrightarrow> e \<in> set db \<and> event_id e = i"
  by (auto simp: findById_def find_Some_iff)

lemma findById_None_iff: "findById db i = None \<longleftrightarrow> (\<forall>e\<in>set db. event_id e \<noteq> i)"
  by (auto simp: findById_def find_None_iff)

lemma findById_written:
  "findById db i = Some e \<Longrightarrow> event_id e' = i \<Longrightarrow> findById (written db e') i = Some e'"
  by (induction db) (auto simp: findById_def written_def split: if_splits)

lemma findById_append_new:
  "findById db i = None \<Longrightarrow> event_id e = i \<Longrightarrow> findById (db @ [e]) i = Some e"
  by (induction db) (auto simp: findById_def split: if_splits)

lemma list_ex_eq_mem: "list_ex (\<lambda>a. a = u) xs \<longleftrightarrow> u \<in> set xs"
  by (induction xs) auto

lemma list_ex_id_iff: "list_ex (\<lambda>d. event_id d = i) db \<longleftrightarrow> findById db i \<noteq> None"
  by (auto simp: findById_None_iff list_ex_iff)

lemma findIndex_ge: "- 1 \<le> findIndex p xs"
  by (induction xs) (auto simp: Let_def)

lemma findIndex_none_iff: "findIndex p xs = - 1 \<longleftrightarrow> (\<forall>x\<in>set xs. \<not> p x)"
proof (induction xs)
  case Nil
  then show ?case by simp
next
  case (Cons x xs)
  have "- 1 \<le> findIndex p xs" by (rule findIndex_ge)
  with Cons show ?case by (auto simp: Let_def)
qed

lemma splice1_nat: "splice1 xs (int n) = take n xs @ drop (Suc n) xs"
  by (cases "n \<le> length xs") (auto simp: splice1_def Let_def min_def)

lemma findIndex_eq_remove1:
  "u \<in> set xs \<Longrightarrow>
   \<exists>n. findIndex (\<lambda>a. a = u) xs = int n \<and> take n xs @ drop (Suc n) xs = remove1 u xs"
proof (induction xs)
  case Nil
  then show ?case by simp
next
  case (Cons x xs)
  show ?case
  proof (cases "x = u")
    case True
    then show ?thesis by (intro exI[of _ 0]) simp
  next
    case False
    with Cons obtain n where n: "findIndex (\<lambda>a. a = u) xs = int n"
      "take n xs @ drop (Suc n) xs = remove1 u xs" by auto
    with False show ?thesis by (intro exI[of _ "Suc n"]) (auto simp: Let_def)
  qed
qed

lemma splice1_findIndex:
  "u \<in> set xs \<Longrightarrow> splice1 xs (findIndex (\<lambda>a. a = u) xs) = remove1 u xs"
  using findIndex_eq_remove1[of u xs] by (auto simp: splice1_nat)

lemma given_SomeD: "given v = Some s \<Longrightarrow> v = Some s \<and> s \<noteq> []"
  by (auto simp: given_def split: option.splits if_splits)

lemma save_valid: "valid_event e \<Longrightarrow> save db (Some e) = Inr (written db e)"
  by (simp add: save_def validate_def)

lemma save_invalid: "\<not> valid_event e \<Longrightarrow> save db (Some e) = Inl ValidationError"
  by (simp add: save_def validate_def)

lemma save_Inr:
  "save db doc = Inr db' \<longleftrightarrow> (\<exists>e. doc = Some e \<and> valid_event e \<and> db' = written db e)"
  by (auto simp: save_def validate_def split: option.splits)

lemma save_new_Inr:
  "save_new db doc = Inr db' \<longleftrightarrow>
   (\<exists>e. doc = Some e \<and> valid_event e \<and> findById db (event_id e) = None \<and> db' = db @ [e])"
  by (auto simp: save_new_def validate_def list_ex_id_iff split: option.splits)

lemma valid_event_attendees [simp]: "valid_event (e\<lparr>attendees := xs\<rparr>) = valid_event e"
  by (simp add: valid_event_def)

lemma list_all_written: "list_all P db \<Longrightarrow> P e \<Longrightarrow> list_all P (written db e)"
  by (auto simp: written_def list_all_iff)

lemma list_all_found: "list_all P db \<Longrightarrow> findById db i = Some e \<Longrightarrow> P e"
  by (auto simp: list_all_iff dest: findById_SomeD)

subsection \<open>\<^verbatim>\<open>parseInt\<close> on decimal numerals\<close>

lemma decimal_digit_code: "c \<in> set (js ''0123456789'') \<longleftrightarrow> 48 \<le> c \<and> c \<le> 57"
proof
  assume "c \<in> set (js ''0123456789'')"
  then show "48 \<le> c \<and> c \<le> 57" by (auto simp: js_def code_unit_def)
next
  assume "48 \<le> c \<and> c \<le> 57"
  then have "c = 48 \<or> c = 49 \<or> c = 50 \<or> c = 51 \<or> c = 52 \<or> c = 53 \<or> c = 54 \<or> c = 55 \<or>
    c = 56 \<or> c = 57" by presburger
  then show "c \<in> set (js ''0123456789'')" by (auto simp: js_def code_unit_def)
qed

lemma decimal_digits_iff: "decimal_digits s \<longleftrightarrow> (\<forall>c\<in>set s. 48 \<le> c \<and> c \<le> 57)"
  by (simp add: decimal_digits_def list_all_iff decimal_digit_code)

lemma decimal_digit_iff: "is_digit_in 10 c \<longleftrightarrow> 48 \<le> c \<and> c \<le> 57"
  by (auto simp: is_digit_in_def digit_val_def code_unit_def)

lemma decimal_digit_val: "48 \<le> c \<Longrightarrow> c \<le> 57 \<Longrightarrow> digit_val c = Some (c - 48)"
  by (simp add: digit_val_def code_unit_def)

lemma decimal_digit_plain:
  assumes "48 \<le> c" and "c \<le> 57"
  shows "\<not> is_space c" "c \<noteq> code_unit CHR ''-''" "c \<noteq> code_unit CHR ''+''"
    "c \<noteq> code_unit CHR ''x''" "c \<noteq> code_unit CHR ''X''"
  using assms by (auto simp: is_space_def code_unit_def)

lemma no_hex_prefix:
  assumes "\<forall>x\<in>set cs. 48 \<le> x \<and> x \<le> 57" and "stop \<noteq> code_unit CHR ''x''"
    and "stop \<noteq> code_unit CHR ''X''"
  shows "\<not> (case cs @ stop # rest of [] \<Rightarrow> False
            | b # x \<Rightarrow> c = code_unit CHR ''0'' \<and>
                (b = code_unit CHR ''x'' \<or> b = code_unit CHR ''X''))"
  using assms by (cases cs) (auto dest: decimal_digit_plain)

lemma takeWhile_digits:
  "\<forall>x\<in>set cs. 48 \<le> x \<and> x \<le> 57 \<Longrightarrow> \<not> is_digit_in 10 stop \<Longrightarrow>
   takeWhile (is_digit_in 10) (cs @ stop # rest) = cs"
  by (simp add: decimal_digit_iff takeWhile_tail)

text \<open>
  After an optional minus sign, \<^verbatim>\<open>parseInt\<close> reads the decimal digits up to the first
  character \<open>stop\<close> that is no digit (and not the \<^verbatim>\<open>x\<close> of a hexadecimal prefix) and
  ignores the rest.
\<close>

lemma parseInt_unsigned:
  assumes "ip \<noteq> []" and "decimal_digits ip" and "\<not> is_digit_in 10 stop"
    and "stop \<noteq> code_unit CHR ''x''" and "stop \<noteq> code_unit CHR ''X''"
  shows "parseInt (ip @ stop # rest) = Some (int (radix_value 10 ip))"
proof -
  from assms(1) obtain c cs where ip: "ip = c # cs" by (cases ip) auto
  with assms(2) have c: "48 \<le> c" "c \<le> 57" and cs: "\<forall>x\<in>set cs. 48 \<le> x \<and> x \<le> 57"
    by (auto simp: decimal_digits_iff)
  note plain = decimal_digit_plain[OF c]
  have d: "is_digit_in 10 c" using c by (simp add: decimal_digit_iff)
  show ?thesis
    unfolding ip parseInt_def Let_def
    using d plain
    by (simp add: no_hex_prefix[OF cs assms(4,5)] takeWhile_digits[OF cs assms(3)])
qed

lemma parseInt_negative:
  assumes "ip \<noteq> []" and "decimal_digits ip" and "\<not> is_digit_in 10 stop"
    and "stop \<noteq> code_unit CHR ''x''" and "stop \<noteq> code_unit CHR ''X''"
  shows "parseInt (code_unit CHR ''-'' # ip @ stop # rest) = Some (- int (radix_value 10 ip))"
proof -
  from assms(1) obtain c cs where ip: "ip = c # cs" by (cases ip) auto
  with assms(2) have c: "48 \<le> c" "c \<le> 57" and cs: "\<forall>x\<in>set cs. 48 \<le> x \<and> x \<le> 57"
    by (auto simp: decimal_digits_iff)
  have d: "is_digit_in 10 c" using c by (simp add: decimal_digit_iff)
  have minus: "\<not> is_space (code_unit CHR ''-'')" by (simp add: is_space_def code_unit_def)
  show ?thesis
    unfolding ip parseInt_def Let_def
    using d minus
    by (simp add: no_hex_prefix[OF cs assms(4,5)] takeWhile_digits[OF cs assms(3)])
qed

lemma point_stops:
  "\<not> is_digit_in 10 (code_unit CHR ''.'')" "code_unit CHR ''.'' \<noteq> code_unit CHR ''x''"
  "code_unit CHR ''.'' \<noteq> code_unit CHR ''X''"
  by (simp_all add: decimal_digit_iff code_unit_def)

lemma exponent_stops:
  "\<not> is_digit_in 10 (code_unit CHR ''e'')" "code_unit CHR ''e'' \<noteq> code_unit CHR ''x''"
  "code_unit CHR ''e'' \<noteq> code_unit CHR ''X''"
  by (simp_all add: decimal_digit_iff code_unit_def)

text \<open>The digit fold of \<^verbatim>\<open>parseInt\<close> computes the number the digits denote.\<close>

lemma radix_fold_value:
  "\<forall>c\<in>set ds. 48 \<le> c \<and> c \<le> 57 \<Longrightarrow>
   foldl (\<lambda>acc c. acc * 10 + (case digit_val c of None \<Rightarrow> 0 | Some v \<Rightarrow> v)) a ds
     = a * 10 ^ length ds + numeral_value ds"
proof (induction ds arbitrary: a)
  case Nil
  then show ?case by simp
next
  case (Cons c ds)
  define d where "d = c - 48"
  from Cons.prems have dv: "digit_val c = Some d" by (simp add: decimal_digit_val d_def)
  have "foldl (\<lambda>acc c. acc * 10 + (case digit_val c of None \<Rightarrow> 0 | Some v \<Rightarrow> v)) (a * 10 + d) ds
        = (a * 10 + d) * 10 ^ length ds + numeral_value ds"
    using Cons.prems by (intro Cons.IH) simp
  also have "\<dots> = a * 10 ^ length (c # ds) + (d * 10 ^ length ds + numeral_value ds)"
    by (simp add: add_mult_distrib)
  finally show ?case by (simp add: dv d_def)
qed

lemma radix_value_decimal: "decimal_digits ds \<Longrightarrow> radix_value 10 ds = numeral_value ds"
  using radix_fold_value[of ds 0] by (simp add: radix_value_def decimal_digits_iff)

lemma numeral_value_bound:
  "\<forall>c\<in>set ds. 48 \<le> c \<and> c \<le> 57 \<Longrightarrow> numeral_value ds < 10 ^ length ds"
proof (induction ds)
  case Nil
  then show ?case by simp
next
  case (Cons c ds)
  then have d: "c - 48 \<le> 9" and less: "numeral_value ds < 10 ^ length ds" by auto
  from d have "(c - 48) * 10 ^ length ds \<le> 9 * 10 ^ length ds"
    by (intro mult_right_mono) simp_all
  with less have "(c - 48) * 10 ^ length ds + numeral_value ds < 10 * 10 ^ length ds"
    by linarith
  then show ?case by simp
qed

lemma trunc_decimal_value:
  assumes "decimal_digits fp"
  shows "trunc_toward_zero (decimal_value neg ip fp)
         = (if neg then - int (numeral_value ip) else int (numeral_value ip))"
proof -
  define n where "n = numeral_value ip"
  define f :: rat where "f = of_nat (numeral_value fp) / 10 ^ length fp"
  have f0: "0 \<le> f" by (simp add: f_def)
  have "numeral_value fp < 10 ^ length fp"
    using assms by (intro numeral_value_bound) (simp add: decimal_digits_iff)
  then have "(of_nat (numeral_value fp) :: rat) < of_nat (10 ^ length fp)"
    by (simp only: of_nat_less_iff)
  then have f1: "f < 1" by (simp add: f_def)
  have fl: "\<lfloor>of_nat n + f\<rfloor> = int n"
    using f0 f1 by (intro floor_unique) simp_all
  show ?thesis
  proof (cases neg)
    case False
    then have "decimal_value neg ip fp = of_nat n + f"
      by (simp add: decimal_value_def n_def f_def)
    with False fl f0 show ?thesis by (simp add: trunc_toward_zero_def n_def)
  next
    case True
    then have dv: "decimal_value neg ip fp = - (of_nat n + f)"
      by (simp add: decimal_value_def n_def f_def)
    show ?thesis
    proof (cases "0 \<le> - (of_nat n + f)")
      case False
      with True dv fl show ?thesis
        by (simp add: trunc_toward_zero_def ceiling_def n_def)
    next
      case nonneg: True
      with f0 have "of_nat n + f = 0" by simp
      with f0 have "n = 0" "f = 0"
        by (simp_all add: add_nonneg_eq_0_iff)
      with True dv show ?thesis by (simp add: trunc_toward_zero_def n_def)
    qed
  qed
qed

lemma parseInt_decimal_numeral:
  assumes "ip \<noteq> []" and "decimal_digits ip" and "decimal_digits fp"
  shows "parseInt (decimal_numeral neg ip fp)
         = Some (trunc_toward_zero (decimal_value neg ip fp))"
  using assms
  by (simp add: decimal_numeral_def js_def parseInt_unsigned parseInt_negative point_stops
      trunc_decimal_value radix_value_decimal)

lemma decimal_numeral_given:
  "given (Some (decimal_numeral neg ip fp)) = Some (decimal_numeral neg ip fp)"
  by (simp add: given_def decimal_numeral_def js_def)

subsection \<open>What each route answers and stores\<close>

lemma rsvp_found:
  assumes "findById db i = Some e"
  shows "rsvp db now i uid =
    (if date e < now then (EventEnded, db)
     else if uid \<in> set (attendees e) then (AlreadyRegistered, db)
     else if capacity e \<le> int (length (attendees e)) then (Full, db)
     else if valid_event e
     then (Registered (e\<lparr>attendees := attendees e @ [uid]\<rparr>),
           written db (e\<lparr>attendees := attendees e @ [uid]\<rparr>))
     else (Failure 500 ''RSVP failed'' ValidationError, db))"
proof -
  have "findById (written db (e\<lparr>attendees := attendees e @ [uid]\<rparr>)) (event_id e)
        = Some (e\<lparr>attendees := attendees e @ [uid]\<rparr>)"
    using assms findById_SomeD[OF assms] by (intro findById_written[where e = e]) auto
  with assms show ?thesis
    by (cases "valid_event e")
       (simp_all add: rsvp_def list_ex_eq_mem save_valid save_invalid EventEnded_def
          AlreadyRegistered_def Full_def Registered_def)
qed

lemma rsvp_not_found: "findById db i = None \<Longrightarrow> rsvp db now i uid = (EventNotFound, db)"
  by (simp add: rsvp_def EventNotFound_def)

lemma cancel_found:
  assumes "findById db i = Some e"
  shows "cancel_rsvp db i uid =
    (if uid \<notin> set (attendees e) then (NotRegistered, db)
     else if valid_event e
     then (Cancelled (e\<lparr>attendees := remove1 uid (attendees e)\<rparr>),
           written db (e\<lparr>attendees := remove1 uid (attendees e)\<rparr>))
     else (Failure 500 ''Server error'' ValidationError, db))"
proof (cases "uid \<in> set (attendees e)")
  case False
  then have "findIndex (\<lambda>attendee. attendee = uid) (attendees e) = - 1"
    by (auto simp: findIndex_none_iff)
  with assms False show ?thesis by (simp add: cancel_rsvp_def NotRegistered_def)
next
  case True
  then have ix: "findIndex (\<lambda>attendee. attendee = uid) (attendees e) \<noteq> - 1"
    by (auto simp: findIndex_none_iff)
  have "findById (written db (e\<lparr>attendees := remove1 uid (attendees e)\<rparr>)) (event_id e)
        = Some (e\<lparr>attendees := remove1 uid (attendees e)\<rparr>)"
    using assms findById_SomeD[OF assms] by (intro findById_written[where e = e]) auto
  with assms True ix show ?thesis
    by (cases "valid_event e")
       (simp_all add: cancel_rsvp_def splice1_findIndex save_valid save_invalid
          Cancelled_def)
qed

lemma cancel_not_found:
  "findById db i = None \<Longrightarrow> cancel_rsvp db i uid = (EventNotFound, db)"
  by (simp add: cancel_rsvp_def EventNotFound_def)

lemma create_event_ok:
  assumes "given (req_title b) = Some t" and "trim t \<noteq> []"
    and "given (req_description b) = Some d"
    and "given (req_date b) = Some dt" and "castDate dt = Some ms"
    and "given (req_location b) = Some l" and "trim l \<noteq> []"
    and "given (req_capacity b) = Some c" and "parseInt c = Some n" and "1 \<le> n"
    and "findById db new_id = None"
    and "e = \<lparr>event_id = new_id, title = trim t, description = d, date = ms,
               location = trim l, capacity = n, attendees = [],
               image_path = (case req_file of None \<Rightarrow> [] | Some name \<Rightarrow> js ''/uploads/'' @ name),
               creator = uid\<rparr>"
  shows "create_event castDate db new_id uid b req_file = (Document 201 (Some e), db @ [e])"
proof -
  have d: "d \<noteq> []" using assms(3) by (auto dest: given_SomeD)
  have doc: "new_Event castDate new_id t d dt l (parseInt c) uid
               (case req_file of None \<Rightarrow> [] | Some name \<Rightarrow> js ''/uploads/'' @ name) = Some e"
    using assms by (simp add: new_Event_def)
  have v: "valid_event e" using assms d by (simp add: valid_event_def)
  have "event_id e = new_id" using assms(12) by simp
  with v assms(11) have sv: "save_new db (Some e) = Inr (db @ [e])"
    by (simp add: save_new_Inr)
  have "findById (db @ [e]) new_id = Some e"
    using assms(11) \<open>event_id e = new_id\<close> by (rule findById_append_new)
  then show ?thesis
    using assms(1,3,4,6,8) doc sv by (simp add: create_event_def)
qed

lemma create_event_cases:
  "(\<exists>e. create_event castDate db new_id uid b req_file = (Document 201 (Some e), db @ [e]) \<and>
        valid_event e \<and> attendees e = [] \<and>
        (\<exists>c. given (req_capacity b) = Some c \<and> parseInt c = Some (capacity e))) \<or>
   (\<exists>err. create_event castDate db new_id uid b req_file = (Failure 500 ''Server error'' err, db)) \<or>
   create_event castDate db new_id uid b req_file
     = (Message 400 ''Please provide all required fields'', db)"
proof (cases "\<exists>t d dt l c. given (req_title b) = Some t \<and> given (req_description b) = Some d \<and>
    given (req_date b) = Some dt \<and> given (req_location b) = Some l \<and>
    given (req_capacity b) = Some c")
  case False
  then show ?thesis
    by (auto simp: create_event_def split: option.splits)
next
  case True
  then obtain t d dt l c where g: "given (req_title b) = Some t"
    "given (req_description b) = Some d" "given (req_date b) = Some dt"
    "given (req_location b) = Some l" "given (req_capacity b) = Some c" by blast
  let ?doc = "new_Event castDate new_id t d dt l (parseInt c) uid
                (case req_file of None \<Rightarrow> [] | Some name \<Rightarrow> js ''/uploads/'' @ name)"
  show ?thesis
  proof (cases "save_new db ?doc")
    case (Inl err)
    with g show ?thesis by (simp add: create_event_def)
  next
    case (Inr db')
    then obtain e where e: "?doc = Some e" "valid_event e" "findById db (event_id e) = None"
      "db' = db @ [e]" by (auto simp: save_new_Inr)
    from e(1) have f: "event_id e = new_id" "attendees e = []" "parseInt c = Some (capacity e)"
      by (auto simp: new_Event_def split: option.splits)
    have "findById (db @ [e]) new_id = Some e"
      using e(3) f(1) by (intro findById_append_new) simp_all
    with g Inr e f show ?thesis by (simp add: create_event_def)
  qed
qed

lemma create_event_low_capacity:
  assumes "given (req_capacity b) = Some c" and "parseInt c = Some n" and "n < 1"
  shows "snd (create_event castDate db new_id uid b req_file) = db \<and>
         (fst (create_event castDate db new_id uid b req_file)
            = Failure 500 ''Server error'' ValidationError \<or>
          fst (create_event castDate db new_id uid b req_file)
            = Message 400 ''Please provide all required fields'')"
proof -
  have "save_new db (new_Event castDate new_id t d dt l (Some n) uid img)
        = Inl ValidationError" for t d dt l img
    using assms(3)
    by (auto simp: save_new_def validate_def new_Event_def valid_event_def split: option.splits)
  with assms(1,2) show ?thesis
    by (auto simp: create_event_def split: option.splits)
qed

lemma create_event_no_number:
  assumes "given (req_capacity b) = Some c" and "parseInt c = None"
  shows "snd (create_event castDate db new_id uid b req_file) = db \<and>
         (fst (create_event castDate db new_id uid b req_file)
            = Failure 500 ''Server error'' ValidationError \<or>
          fst (create_event castDate db new_id uid b req_file)
            = Message 400 ''Please provide all required fields'')"
proof -
  have "save_new db (new_Event castDate new_id t d dt l None uid img)
        = Inl ValidationError" for t d dt l img
    by (auto simp: save_new_def validate_def new_Event_def split: option.splits)
  with assms show ?thesis
    by (auto simp: create_event_def split: option.splits)
qed

lemma assign_fields_SomeD:
  assumes "assign_fields castDate e b req_file = Some e'"
  shows "attendees e' = attendees e" "event_id e' = event_id e" "creator e' = creator e"
    "case given (req_capacity b) of None \<Rightarrow> capacity e' = capacity e
     | Some c \<Rightarrow> parseInt c = Some (capacity e')"
  using assms
  by (auto simp: assign_fields_def Let_def split: option.splits)

lemma update_event_cases:
  "snd (update_event castDate db i uid b req_file) = db \<or>
   (\<exists>e e'. findById db i = Some e \<and> assign_fields castDate e b req_file = Some e' \<and>
      valid_event e' \<and> snd (update_event castDate db i uid b req_file) = written db e')"
  by (auto simp: update_event_def save_Inr split: option.splits sum.splits)

lemma update_event_stored:
  assumes "update_event castDate db i uid b req_file = (Document 200 (Some e'), db')"
  shows "\<exists>e. findById db i = Some e \<and> assign_fields castDate e b req_file = Some e' \<and>
             valid_event e' \<and> db' = written db e'"
proof -
  from assms obtain e where e: "findById db i = Some e" "creator e = uid"
    by (auto simp: update_event_def split: option.splits if_splits)
  with assms obtain e2 where e2: "assign_fields castDate e b req_file = Some e2"
    "valid_event e2" "db' = written db e2"
    "findById (written db e2) (event_id e) = Some e'"
    by (auto simp: update_event_def save_Inr split: sum.splits)
  have "event_id e2 = event_id e" using e2(1) by (rule assign_fields_SomeD)
  with e(1) findById_SomeD[OF e(1)] have "findById (written db e2) (event_id e) = Some e2"
    by (intro findById_written[where e = e]) auto
  with e2(4) have "e2 = e'" by simp
  with e e2 show ?thesis by simp
qed

lemma update_capacity_only:
  assumes "findById db i = Some e" and "creator e = uid" and "valid_event e"
    and "c \<noteq> []" and "parseInt c = Some n" and "1 \<le> n"
  shows "update_event castDate db i uid (capacity_only c) None
         = (Document 200 (Some (e\<lparr>capacity := n\<rparr>)), written db (e\<lparr>capacity := n\<rparr>))"
proof -
  have a: "assign_fields castDate e (capacity_only c) None = Some (e\<lparr>capacity := n\<rparr>)"
    using assms(4,5) by (simp add: assign_fields_def capacity_only_def given_def)
  have v: "valid_event (e\<lparr>capacity := n\<rparr>)"
    using assms(3,6) by (simp add: valid_event_def)
  have "findById (written db (e\<lparr>capacity := n\<rparr>)) (event_id e) = Some (e\<lparr>capacity := n\<rparr>)"
    using assms(1) findById_SomeD[OF assms(1)] by (intro findById_written[where e = e]) auto
  with assms(1,2) a v show ?thesis
    by (simp add: update_event_def save_valid)
qed

subsection \<open>What every route keeps\<close>

text \<open>
  A property of the stored events is kept by a route when the events the route writes
  have it. In particular the collection only ever holds events that pass the validators
  of the schema, which is why the theorems below may assume it of a stored event.
\<close>

lemma rsvp_keeps:
  assumes "list_all P db"
    and "\<And>e. P e \<Longrightarrow> uid \<notin> set (attendees e) \<Longrightarrow> int (length (attendees e)) < capacity e
           \<Longrightarrow> P (e\<lparr>attendees := attendees e @ [uid]\<rparr>)"
  shows "list_all P (snd (rsvp db now i uid))"
proof (cases "findById db i")
  case None
  with assms(1) show ?thesis by (simp add: rsvp_not_found)
next
  case (Some e)
  with assms(1) have "P e" by (rule list_all_found)
  with assms Some show ?thesis by (simp add: rsvp_found list_all_written)
qed

lemma cancel_keeps:
  assumes "list_all P db"
    and "\<And>e. P e \<Longrightarrow> uid \<in> set (attendees e)
           \<Longrightarrow> P (e\<lparr>attendees := remove1 uid (attendees e)\<rparr>)"
  shows "list_all P (snd (cancel_rsvp db i uid))"
proof (cases "findById db i")
  case None
  with assms(1) show ?thesis by (simp add: cancel_not_found)
next
  case (Some e)
  with assms(1) have "P e" by (rule list_all_found)
  with assms Some show ?thesis by (simp add: cancel_found list_all_written)
qed

lemma create_keeps:
  assumes "list_all P db"
    and "\<And>e. valid_event e \<Longrightarrow> attendees e = [] \<Longrightarrow> P e"
  shows "list_all P (snd (create_event castDate db new_id uid b req_file))"
  using create_event_cases[of castDate db new_id uid b req_file] assms by auto

lemma update_keeps:
  assumes "list_all P db"
    and "\<And>e e'. P e \<Longrightarrow> findById db i = Some e \<Longrightarrow>
           assign_fields castDate e b req_file = Some e' \<Longrightarrow> valid_event e' \<Longrightarrow> P e'"
  shows "list_all P (snd (update_event castDate db i uid b req_file))"
proof -
  from update_event_cases[of castDate db i uid b req_file] show ?thesis
  proof
    assume "snd (update_event castDate db i uid b req_file) = db"
    with assms(1) show ?thesis by simp
  next
    assume "\<exists>e e'. findById db i = Some e \<and> assign_fields castDate e b req_file = Some e' \<and>
      valid_event e' \<and> snd (update_event castDate db i uid b req_file) = written db e'"
    then obtain e e' where *: "findById db i = Some e"
      "assign_fields castDate e b req_file = Some e'" "valid_event e'"
      "snd (update_event castDate db i uid b req_file) = written db e'" by blast
    from assms(1) *(1) have "P e" by (rule list_all_found)
    with assms(2) * have "P e'" by blast
    with assms(1) *(4) show ?thesis by (simp add: list_all_written)
  qed
qed

lemma delete_keeps: "list_all P db \<Longrightarrow> list_all P (snd (delete_event db i uid))"
  by (auto simp: delete_event_def list_all_iff split: option.splits)

lemma routes_store_valid_events:
  assumes "list_all valid_event db"
  shows "list_all valid_event (snd (create_event castDate db new_id uid b req_file))"
    and "list_all valid_event (snd (update_event castDate db i uid b req_file))"
    and "list_all valid_event (snd (delete_event db i uid))"
    and "list_all valid_event (snd (rsvp db now i uid))"
    and "list_all valid_event (snd (cancel_rsvp db i uid))"
  using assms
  by (simp_all add: create_keeps update_keeps delete_keeps rsvp_keeps cancel_keeps)

lemma event_inv_appended:
  "event_inv e \<Longrightarrow> uid \<notin> set (attendees e) \<Longrightarrow> int (length (attendees e)) < capacity e
   \<Longrightarrow> event_inv (e\<lparr>attendees := attendees e @ [uid]\<rparr>)"
  by (simp add: event_inv_def within_capacity_def no_duplicates_def)

lemma event_inv_removed:
  "event_inv e \<Longrightarrow> event_inv (e\<lparr>attendees := remove1 uid (attendees e)\<rparr>)"
  by (auto simp: event_inv_def within_capacity_def no_duplicates_def length_remove1)

lemma event_inv_new: "valid_event e \<Longrightarrow> attendees e = [] \<Longrightarrow> event_inv e"
  by (simp add: event_inv_def within_capacity_def no_duplicates_def valid_event_def)

lemma no_duplicates_if_inv: "list_all event_inv db \<Longrightarrow> list_all no_duplicates db"
  by (simp add: list_all_iff event_inv_def)

lemma rsvp_registered_within:
  assumes "rsvp db now i uid = (Registered e', db')"
  shows "within_capacity e'"
proof (cases "findById db i")
  case None
  with assms show ?thesis by (simp add: rsvp_not_found EventNotFound_def Registered_def)
next
  case (Some e)
  with assms show ?thesis
    by (auto simp: rsvp_found EventEnded_def AlreadyRegistered_def Full_def Registered_def
        within_capacity_def split: if_splits)
qed

lemma create_event_stored_inv:
  assumes "create_event castDate db new_id uid b req_file = (Document 201 (Some e), db')"
  shows "event_inv e"
  using create_event_cases[of castDate db new_id uid b req_file] assms
  by (auto simp: event_inv_new)

lemma handle_keeps_no_duplicates:
  assumes "list_all no_duplicates db"
  shows "list_all no_duplicates (snd (handle castDate db r))"
proof (cases r)
  case (CreateEvent new_id uid b req_file)
  have "list_all no_duplicates (snd (create_event castDate db new_id uid b req_file))"
    using assms by (rule create_keeps) (simp add: no_duplicates_def)
  with CreateEvent show ?thesis by simp
next
  case (UpdateEvent i uid b req_file)
  have "list_all no_duplicates (snd (update_event castDate db i uid b req_file))"
    using assms by (rule update_keeps) (simp add: no_duplicates_def assign_fields_SomeD(1))
  with UpdateEvent show ?thesis by simp
next
  case (DeleteEvent i uid)
  with assms show ?thesis by (simp add: delete_keeps)
next
  case (Rsvp now i uid)
  have "list_all no_duplicates (snd (rsvp db now i uid))"
    using assms by (rule rsvp_keeps) (simp add: no_duplicates_def)
  with Rsvp show ?thesis by simp
next
  case (CancelRsvp i uid)
  have "list_all no_duplicates (snd (cancel_rsvp db i uid))"
    using assms by (rule cancel_keeps) (simp add: no_duplicates_def)
  with CancelRsvp show ?thesis by simp
qed (use assms in simp_all)

lemma serve_keeps_no_duplicates:
  "list_all no_duplicates db \<Longrightarrow>
   list_all no_duplicates (foldl (\<lambda>db r. snd (handle castDate db r)) db rs)"
  by (induction rs arbitrary: db) (simp_all add: handle_keeps_no_duplicates)

lemma run_no_duplicates: "list_all no_duplicates (run castDate rs)"
  unfolding run_def by (rule serve_keeps_no_duplicates) simp

lemma within_capacity_removed:
  "within_capacity e \<Longrightarrow> within_capacity (e\<lparr>attendees := remove1 uid (attendees e)\<rparr>)"
  by (auto simp: within_capacity_def length_remove1)

lemma within_capacity_appended:
  "int (length (attendees e)) < capacity e
   \<Longrightarrow> within_capacity (e\<lparr>attendees := attendees e @ [uid]\<rparr>)"
  by (simp add: within_capacity_def)

lemma within_capacity_new: "valid_event e \<Longrightarrow> attendees e = [] \<Longrightarrow> within_capacity e"
  by (simp add: within_capacity_def valid_event_def)

subsection \<open>The sample data\<close>

lemma sample_lookup:
  "findById [party, reunion] 101 = Some party" "findById [party, reunion] 102 = Some reunion"
  "findById [party, reunion] 103 = None"
  by (simp_all add: findById_def party_def reunion_def)

lemma sample_valid: "valid_event party" "valid_event reunion" "1 \<le> n \<Longrightarrow> valid_event (picnic n)"
  by (simp_all add: valid_event_def party_def reunion_def picnic_def js_def)

lemma sample_fields:
  "event_id party = 101" "date party = 1893456000000" "capacity party = 3"
  "attendees party = [10, 11]" "creator party = 7"
  "event_id reunion = 102" "date reunion = 1577836800000" "capacity reunion = 2"
  "attendees reunion = [10, 12]" "creator reunion = 8"
  "event_id (picnic n) = 103" "capacity (picnic n) = n" "attendees (picnic n) = []"
  by (simp_all add: party_def reunion_def picnic_def)

lemma sample_inv: "event_inv party" "event_inv reunion"
  by (simp_all add: event_inv_def within_capacity_def no_duplicates_def sample_fields)

lemma sample_within: "within_capacity party" "within_capacity reunion"
  by (simp_all add: within_capacity_def sample_fields)

text \<open>
  \<^verbatim>\<open>parseInt\<close> on capacities as a form may send them: plain numerals, a sign, a
  fraction, an exponent, a hexadecimal prefix, leading white space (also a no-break space,
  U+00A0), and strings that start with no digit.
\<close>

lemma sample_capacity_strings:
  "parseInt (js ''1'') = Some 1" "parseInt (js ''0'') = Some 0" "parseInt (js ''5'') = Some 5"
  "parseInt (js ''12'') = Some 12"
  "parseInt (js ''-3'') = Some (- 3)" "parseInt (js ''+12'') = Some 12"
  "parseInt (js ''0.5'') = Some 0" "parseInt (js ''5.9'') = Some 5"
  "parseInt (js ''12.75'') = Some 12" "parseInt (js ''-120.5'') = Some (- 120)"
  "parseInt (js ''5e-7'') = Some 5" "parseInt (js ''25e-1'') = Some 25"
  "parseInt (js ''0x1F'') = Some 31" "parseInt (js ''  42 seats'') = Some 42"
  "parseInt (0xA0 # js ''7'') = Some 7"
  "parseInt (js ''.5'') = None" "parseInt (js ''abc'') = None" "parseInt (js ''-'') = None"
  by (simp_all add: parseInt_def is_space_def is_digit_in_def digit_val_def radix_value_def
      js_def code_unit_def)

lemma sample_body_given:
  "c \<noteq> [] \<Longrightarrow> given (req_capacity (sample_body c)) = Some c"
  "given (req_title (sample_body c)) = Some (js ''  Picnic '')"
  "given (req_description (sample_body c)) = Some (js ''Lunch outside'')"
  "given (req_date (sample_body c)) = Some (js ''2030-01-01'')"
  "given (req_location (sample_body c)) = Some (js ''Park'')"
  by (simp_all add: sample_body_def given_def js_def)

text \<open>\<^verbatim>\<open>trim\<close> removes white space at both ends, also the white space beyond ASCII.\<close>

lemma sample_casts:
  "sample_castDate (js ''2030-01-01'') = Some 1893456000000"
  "trim (js ''  Picnic '') = js ''Picnic''" "trim (js ''Park'') = js ''Park''"
  "trim (js ''a b'') = js ''a b''" "trim [0xA0, 0x2003, 0xFEFF] = []"
  by (simp_all add: sample_castDate_def trim_def is_space_def js_def code_unit_def)

lemma js_not_empty: "s \<noteq> [] \<Longrightarrow> js s \<noteq> []"
  by (simp add: js_def)

lemma sample_create:
  assumes "parseInt c = Some n" and "1 \<le> n" and "c \<noteq> []"
  shows "create_event sample_castDate [party, reunion] 103 7 (sample_body c) None
         = (Document 201 (Some (picnic n)), [party, reunion, picnic n])"
proof -
  have "create_event sample_castDate [party, reunion] 103 7 (sample_body c) None
         = (Document 201 (Some (picnic n)), [party, reunion] @ [picnic n])"
    using assms
    by (intro create_event_ok[where t = "js ''  Picnic ''" and d = "js ''Lunch outside''"
          and dt = "js ''2030-01-01''" and l = "js ''Park''" and ms = 1893456000000
          and c = c and n = n])
       (simp_all add: sample_body_given sample_casts sample_lookup picnic_def js_not_empty)
  then show ?thesis by simp
qed

lemma sample_update:
  assumes "parseInt c = Some n" and "1 \<le> n" and "c \<noteq> []"
  shows "update_event sample_castDate [party, reunion] 101 7 (capacity_only c) None
         = (Document 200 (Some (party\<lparr>capacity := n\<rparr>)), [party\<lparr>capacity := n\<rparr>, reunion])"
proof -
  have "update_event sample_castDate [party, reunion] 101 7 (capacity_only c) None
     = (Document 200 (Some (party\<lparr>capacity := n\<rparr>)),
        written [party, reunion] (party\<lparr>capacity := n\<rparr>))"
    using assms
    by (intro update_capacity_only) (simp_all add: sample_lookup sample_fields sample_valid)
  then show ?thesis by (simp add: written_def sample_fields)
qed

lemma sample_numerals:
  "decimal_numeral False (js ''12'') (js ''75'') = js ''12.75''"
  "decimal_numeral True (js ''120'') (js ''5'') = js ''-120.5''"
  "decimal_numeral False (js ''5'') (js ''9'') = js ''5.9''"
  "decimal_digits (js ''12'')" "decimal_digits (js ''75'')" "decimal_digits (js ''120'')"
  "decimal_digits (js ''5'')" "decimal_digits (js ''9'')"
  "\<not> decimal_digits (js ''5e'')" "\<not> decimal_digits (js ''-5'')"
  by (simp_all add: decimal_numeral_def decimal_digits_def js_def code_unit_def)

text \<open>
  White space and what is none: the zero width space U+200B, the next line character
  U+0085 and the Mongolian vowel separator U+180E are not skipped.
\<close>

lemma white_space_examples:
  "is_space 0x20" "is_space 0x0A" "is_space 0xA0" "is_space 0x2003" "is_space 0x3000"
  "is_space 0xFEFF" "is_space 0x2029"
  "\<not> is_space 0x200B" "\<not> is_space 0x85" "\<not> is_space 0x180E" "\<not> is_space 0x30"
  by (simp_all add: is_space_def)

text \<open>
  Capacity edits on \<open>party\<close>, which has two attendees: 5 and 2 fit; 1 does not, with
  or without a no-break space before it, and a capacity read as no number does not.
\<close>

lemma sample_capacity_edits:
  "capacity_edit_fits [party, reunion] 101 (capacity_only (js ''5''))"
  "capacity_edit_fits [party, reunion] 101 (capacity_only (js ''2''))"
  "capacity_edit_fits [party, reunion] 101 (capacity_only [])"
  "\<not> capacity_edit_fits [party, reunion] 101 (capacity_only (js ''1''))"
  "\<not> capacity_edit_fits [party, reunion] 101 (capacity_only (0xA0 # js ''1''))"
  "\<not> capacity_edit_fits [party, reunion] 101 (capacity_only (js ''.5''))"
  by (simp_all add: capacity_edit_fits_def sample_lookup sample_fields capacity_only_def
      given_def parseInt_def is_space_def is_digit_in_def digit_val_def radix_value_def
      js_def code_unit_def)

lemma sample_truncations:
  "trunc_toward_zero (decimal_value False (js ''12'') (js ''75'')) = 12"
  "trunc_toward_zero (decimal_value True (js ''120'') (js ''5'')) = - 120"
  "trunc_toward_zero (decimal_value False (js ''5'') (js ''9'')) = 5"
  by (simp_all add: trunc_decimal_value sample_numerals)
     (simp_all add: js_def code_unit_def)

lemma sample_run:
  "run sample_castDate
     [CreateEvent 103 7 (sample_body (js ''1'')) None, Rsvp 1600000000000 103 42,
      Rsvp 1600000000000 103 42, Rsvp 1600000000000 103 43, CancelRsvp 103 42]
   = [picnic 1]"
proof -
  have c: "create_event sample_castDate [] 103 7 (sample_body (js ''1'')) None
           = (Document 201 (Some (picnic 1)), [] @ [picnic 1])"
    by (intro create_event_ok[where t = "js ''  Picnic ''" and d = "js ''Lunch outside''"
          and dt = "js ''2030-01-01''" and l = "js ''Park''" and ms = 1893456000000
          and c = "js ''1''" and n = 1])
       (simp_all add: sample_body_given sample_casts sample_capacity_strings picnic_def
          js_not_empty findById_def)
  have f: "findById [picnic 1] 103 = Some (picnic 1)"
    "findById [picnic 1\<lparr>attendees := [42]\<rparr>] 103 = Some (picnic 1\<lparr>attendees := [42]\<rparr>)"
    by (simp_all add: findById_def sample_fields)
  have d: "date (picnic 1) = 1893456000000" by (simp add: picnic_def)
  show ?thesis
    by (simp add: run_def c rsvp_found cancel_found f sample_fields sample_valid written_def d)
qed

lemma sample_rejected:
  assumes "c \<noteq> []" and "parseInt c = None \<or> (\<exists>n. parseInt c = Some n \<and> n < 1)"
  shows "create_event sample_castDate [party, reunion] 103 7 (sample_body c) None
         = (Failure 500 ''Server error'' ValidationError, [party, reunion])"
  using assms
  by (auto simp: create_event_def sample_body_given new_Event_def sample_casts save_new_def
      validate_def valid_event_def)

lemma sample_update_rejected:
  assumes "c \<noteq> []" and "parseInt c = None"
  shows "update_event sample_castDate [party, reunion] 101 7 (capacity_only c) None
         = (Failure 500 ''Server error'' ValidationError, [party, reunion])"
  using assms
  by (simp add: update_event_def sample_lookup sample_fields assign_fields_def
      capacity_only_def given_def save_def validate_def)

lemma length_js: "length (js s) = length s"
  by (simp add: js_def)

lemma sample_req_capacity:
  "req_capacity (sample_body c) = Some c" "req_capacity (capacity_only c) = Some c"
  by (simp_all add: sample_body_def capacity_only_def)

section \<open>The claims of the specification\<close>

subsection \<open>Invariants of an event\<close>

text \<open>
  Claim C1, as amended. No user identifier appears more than once in the attendees of
  any event, in every collection the routes reach from the empty one. An event has at
  most \<open>capacity\<close> attendees when it is created and after every committed \<open>rsvp\<close> on
  it. When every event has at most \<open>capacity\<close> attendees before the request, every event
  has after event creation, after \<open>rsvp\<close>, after \<open>cancel_rsvp\<close>, and after an update by
  the creator whose capacity edit fits: the request names no capacity, or one that
  \<^verbatim>\<open>parseInt\<close> reads as a number not below the number of attendees of the event. (The
  update route checks a new capacity against the schema's minimum of 1 only, so the bound
  is no invariant of the collection: see the two examples after the theorem.)
\<close>
theorem attendee_invariants:
  "list_all no_duplicates (run castDate rs) \<and>
   (create_event castDate db new_id uid b req_file = (Document 201 (Some e), db')
      \<longrightarrow> within_capacity e) \<and>
   (rsvp db now i uid = (Registered e, db') \<longrightarrow> within_capacity e) \<and>
   (list_all within_capacity db \<longrightarrow>
      list_all within_capacity (snd (create_event castDate db new_id uid b req_file)) \<and>
      list_all within_capacity (snd (rsvp db now i uid)) \<and>
      list_all within_capacity (snd (cancel_rsvp db i uid)) \<and>
      (capacity_edit_fits db i b \<longrightarrow>
         list_all within_capacity (snd (update_event castDate db i uid b req_file))))"
proof (intro conjI impI)
  show "list_all no_duplicates (run castDate rs)" by (rule run_no_duplicates)
next
  assume "create_event castDate db new_id uid b req_file = (Document 201 (Some e), db')"
  then have "event_inv e" by (rule create_event_stored_inv)
  then show "within_capacity e" by (simp add: event_inv_def)
next
  assume "rsvp db now i uid = (Registered e, db')"
  then show "within_capacity e" by (rule rsvp_registered_within)
next
  assume w: "list_all within_capacity db"
  show "list_all within_capacity (snd (create_event castDate db new_id uid b req_file))"
    using w by (rule create_keeps) (rule within_capacity_new)
  show "list_all within_capacity (snd (rsvp db now i uid))"
    using w by (rule rsvp_keeps) (rule within_capacity_appended)
  show "list_all within_capacity (snd (cancel_rsvp db i uid))"
    using w by (rule cancel_keeps) (rule within_capacity_removed)
  assume fits: "capacity_edit_fits db i b"
  show "list_all within_capacity (snd (update_event castDate db i uid b req_file))"
    using w
  proof (rule update_keeps)
    fix e0 e'
    assume e: "within_capacity e0" "findById db i = Some e0"
      "assign_fields castDate e0 b req_file = Some e'"
    note f = assign_fields_SomeD[OF e(3)]
    have "int (length (attendees e0)) \<le> capacity e'"
    proof (cases "given (req_capacity b)")
      case None
      with f(4) e(1) show ?thesis by (simp add: within_capacity_def)
    next
      case (Some c)
      with f(4) fits e(2) show ?thesis by (simp add: capacity_edit_fits_def)
    qed
    with f(1) show "within_capacity e'" by (simp add: within_capacity_def)
  qed
qed

theorem attendee_invariants_witness:
  "list_all no_duplicates
     (run sample_castDate
        [CreateEvent 103 7 (sample_body (js ''1'')) None, Rsvp 1600000000000 103 42,
         Rsvp 1600000000000 103 42, Rsvp 1600000000000 103 43, CancelRsvp 103 42]) \<and>
   create_event sample_castDate [party, reunion] 103 7 (sample_body (js ''5'')) None
     = (Document 201 (Some (picnic 5)), [party, reunion, picnic 5]) \<and>
   within_capacity (picnic 5) \<and>
   rsvp [party, reunion] 1600000000000 101 42
     = (Registered (party\<lparr>attendees := [10, 11, 42]\<rparr>),
        [party\<lparr>attendees := [10, 11, 42]\<rparr>, reunion]) \<and>
   within_capacity (party\<lparr>attendees := [10, 11, 42]\<rparr>) \<and>
   list_all within_capacity [party, reunion] \<and>
   list_all within_capacity
     (snd (create_event sample_castDate [party, reunion] 103 7 (sample_body (js ''5'')) None)) \<and>
   list_all within_capacity (snd (rsvp [party, reunion] 1600000000000 101 42)) \<and>
   list_all within_capacity (snd (cancel_rsvp [party, reunion] 101 10)) \<and>
   capacity_edit_fits [party, reunion] 101 (capacity_only (js ''5'')) \<and>
   list_all within_capacity
     (snd (update_event sample_castDate [party, reunion] 101 7 (capacity_only (js ''5''))
             None))"
  using attendee_invariants
    [where castDate = sample_castDate
       and rs = "[CreateEvent 103 7 (sample_body (js ''1'')) None, Rsvp 1600000000000 103 42,
                  Rsvp 1600000000000 103 42, Rsvp 1600000000000 103 43, CancelRsvp 103 42]"
       and db = "[party, reunion]" and new_id = 103 and uid = 7
       and b = "sample_body (js ''5'')" and req_file = None and e = "picnic 5"
       and db' = "[party, reunion, picnic 5]" and now = 1600000000000 and i = 101]
    attendee_invariants
    [where castDate = sample_castDate and rs = "[]"
       and db = "[party, reunion]" and new_id = 103 and uid = 42
       and b = "sample_body (js ''5'')" and req_file = None
       and e = "party\<lparr>attendees := [10, 11, 42]\<rparr>"
       and db' = "[party\<lparr>attendees := [10, 11, 42]\<rparr>, reunion]"
       and now = 1600000000000 and i = 101]
    attendee_invariants
    [where castDate = sample_castDate and rs = "[]"
       and db = "[party, reunion]" and new_id = 103 and uid = 10
       and b = "sample_body (js ''5'')" and req_file = None and e = "picnic 5"
       and db' = "[party, reunion, picnic 5]" and now = 1600000000000 and i = 101]
    attendee_invariants
    [where castDate = sample_castDate and rs = "[]"
       and db = "[party, reunion]" and new_id = 103 and uid = 7
       and b = "capacity_only (js ''5'')" and req_file = None and e = "picnic 5"
       and db' = "[party, reunion, picnic 5]" and now = 1600000000000 and i = 101]
  by (simp add: sample_create sample_capacity_strings js_not_empty rsvp_found sample_lookup
      sample_valid sample_fields written_def sample_within capacity_edit_fits_def
      capacity_only_def given_def)

text \<open>
  Against claim C1 as it is stated: the creator of \<open>party\<close>, an event with two attendees
  and capacity 3, sets its capacity to 1. The update is stored, and the event then has
  more attendees than its capacity.
\<close>
theorem capacity_edit_below_attendees:
  "list_all event_inv [party, reunion] \<and>
   update_event sample_castDate [party, reunion] 101 7 (capacity_only (js ''1'')) None
     = (Document 200 (Some (party\<lparr>capacity := 1\<rparr>)), [party\<lparr>capacity := 1\<rparr>, reunion]) \<and>
   length (attendees (party\<lparr>capacity := 1\<rparr>)) = 2 \<and>
   capacity (party\<lparr>capacity := 1\<rparr>) = 1 \<and>
   \<not> list_all event_inv [party\<lparr>capacity := 1\<rparr>, reunion]"
proof -
  have "update_event sample_castDate [party, reunion] 101 7 (capacity_only (js ''1'')) None
     = (Document 200 (Some (party\<lparr>capacity := 1\<rparr>)), [party\<lparr>capacity := 1\<rparr>, reunion])"
    by (rule sample_update) (simp_all add: sample_capacity_strings js_not_empty)
  moreover have "\<not> event_inv (party\<lparr>capacity := 1\<rparr>)"
    by (simp add: event_inv_def within_capacity_def sample_fields)
  ultimately show ?thesis
    by (simp add: sample_inv sample_fields)
qed

text \<open>
  The same from the empty collection: an event of capacity 5 is created, three users
  register, the creator sets the capacity to 1 and one user cancels. The cancellation is
  stored, and the event is left with two attendees and capacity 1.
\<close>
lemma sample_overbooked_run:
  "run sample_castDate
     [CreateEvent 103 7 (sample_body (js ''5'')) None, Rsvp 1600000000000 103 42,
      Rsvp 1600000000000 103 43, Rsvp 1600000000000 103 44,
      UpdateEvent 103 7 (capacity_only (js ''1'')) None, CancelRsvp 103 42]
   = [picnic 1\<lparr>attendees := [43, 44]\<rparr>]"
proof -
  have c: "create_event sample_castDate [] 103 7 (sample_body (js ''5'')) None
           = (Document 201 (Some (picnic 5)), [] @ [picnic 5])"
    by (intro create_event_ok[where t = "js ''  Picnic ''" and d = "js ''Lunch outside''"
          and dt = "js ''2030-01-01''" and l = "js ''Park''" and ms = 1893456000000
          and c = "js ''5''" and n = 5])
       (simp_all add: sample_body_given sample_casts sample_capacity_strings picnic_def
          js_not_empty findById_def)
  have f: "findById [e] 103 = Some e" if "event_id e = 103" for e
    using that by (simp add: findById_def)
  have d: "date (picnic n) = 1893456000000" "creator (picnic n) = 7" for n
    by (simp_all add: picnic_def)
  have u: "update_event sample_castDate [picnic 5\<lparr>attendees := [42, 43, 44]\<rparr>] 103 7
             (capacity_only (js ''1'')) None
           = (Document 200 (Some (picnic 5\<lparr>attendees := [42, 43, 44], capacity := 1\<rparr>)),
              written [picnic 5\<lparr>attendees := [42, 43, 44]\<rparr>]
                (picnic 5\<lparr>attendees := [42, 43, 44], capacity := 1\<rparr>))"
    by (intro update_capacity_only)
       (simp_all add: f sample_fields sample_valid d sample_capacity_strings js_not_empty)
  have p: "picnic 5\<lparr>attendees := xs, capacity := 1\<rparr> = picnic 1\<lparr>attendees := xs\<rparr>"
    "picnic 5\<lparr>capacity := 1, attendees := xs\<rparr> = picnic 1\<lparr>attendees := xs\<rparr>" for xs
    by (simp_all add: picnic_def)
  show ?thesis
    by (simp add: run_def c rsvp_found cancel_found f sample_fields sample_valid written_def d
        u p)
qed

subsection \<open>Registration\<close>

text \<open>
  Claim C2. For a stored event, the outcome of \<open>rsvp\<close> is decided by the checks in this
  order: the event has started before the attempt (\<open>EventEnded\<close>), the user is among
  the attendees (\<open>AlreadyRegistered\<close>), the event has no place left (\<open>Full\<close>);
  otherwise the user is appended to the attendees and the outcome is \<open>Registered\<close>.
  Every rejection leaves the collection as it was.
\<close>
theorem rsvp_check_order:
  assumes "findById db i = Some e" and "valid_event e"
  shows "rsvp db now i uid =
    (if date e < now then (EventEnded, db)
     else if uid \<in> set (attendees e) then (AlreadyRegistered, db)
     else if capacity e \<le> int (length (attendees e)) then (Full, db)
     else (Registered (e\<lparr>attendees := attendees e @ [uid]\<rparr>),
           written db (e\<lparr>attendees := attendees e @ [uid]\<rparr>)))"
  using assms by (simp add: rsvp_found)

theorem rsvp_check_order_witness:
  "findById [party, reunion] 101 = Some party \<and> valid_event party \<and>
   rsvp [party, reunion] 1600000000000 101 42
     = (Registered (party\<lparr>attendees := [10, 11, 42]\<rparr>),
        [party\<lparr>attendees := [10, 11, 42]\<rparr>, reunion]) \<and>
   rsvp [party, reunion] 1600000000000 101 11 = (AlreadyRegistered, [party, reunion]) \<and>
   rsvp [party, reunion] 1900000000000 101 11 = (EventEnded, [party, reunion]) \<and>
   findById [party, reunion] 102 = Some reunion \<and> valid_event reunion \<and>
   rsvp [party, reunion] 1500000000000 102 42 = (Full, [party, reunion]) \<and>
   rsvp [party, reunion] 1500000000000 102 10 = (AlreadyRegistered, [party, reunion]) \<and>
   rsvp [party, reunion] 1600000000000 102 42 = (EventEnded, [party, reunion])"
  using rsvp_check_order [of "[party, reunion]" 101 party 1600000000000 42]
    rsvp_check_order [of "[party, reunion]" 101 party 1600000000000 11]
    rsvp_check_order [of "[party, reunion]" 101 party 1900000000000 11]
    rsvp_check_order [of "[party, reunion]" 102 reunion 1500000000000 42]
    rsvp_check_order [of "[party, reunion]" 102 reunion 1500000000000 10]
    rsvp_check_order [of "[party, reunion]" 102 reunion 1600000000000 42]
  by (simp add: sample_lookup sample_valid sample_fields written_def)

text \<open>
  Claim C4. When \<open>rsvp\<close> answers \<open>EventNotFound\<close>, \<open>EventEnded\<close>,
  \<open>AlreadyRegistered\<close> or \<open>Full\<close>, and when \<open>cancel_rsvp\<close> answers
  \<open>EventNotFound\<close> or \<open>NotRegistered\<close>, the collection after the request is the
  collection before it: the attendees and every other field of every event are untouched.
\<close>
theorem rejected_attempts_leave_state:
  "(fst (rsvp db now i uid) \<in> {EventNotFound, EventEnded, AlreadyRegistered, Full}
      \<longrightarrow> snd (rsvp db now i uid) = db) \<and>
   (fst (cancel_rsvp db i uid) \<in> {EventNotFound, NotRegistered}
      \<longrightarrow> snd (cancel_rsvp db i uid) = db)"
proof (cases "findById db i")
  case None
  then show ?thesis by (simp add: rsvp_not_found cancel_not_found)
next
  case (Some e)
  then show ?thesis
    by (simp add: rsvp_found cancel_found EventNotFound_def EventEnded_def
        AlreadyRegistered_def Full_def NotRegistered_def Registered_def Cancelled_def)
qed

theorem rejected_attempts_leave_state_witness:
  "fst (rsvp [party, reunion] 1500000000000 102 42) \<in> {EventNotFound, EventEnded, AlreadyRegistered, Full} \<and>
   snd (rsvp [party, reunion] 1500000000000 102 42) = [party, reunion] \<and>
   fst (cancel_rsvp [party, reunion] 102 42) \<in> {EventNotFound, NotRegistered} \<and>
   snd (cancel_rsvp [party, reunion] 102 42) = [party, reunion]"
  using rejected_attempts_leave_state [of "[party, reunion]" 1500000000000 102 42]
  by (simp add: rsvp_found cancel_found sample_lookup sample_valid sample_fields)

text \<open>
  Claim C5. For an event that has not started and has a place left, and a user who is not
  registered, two \<open>rsvp\<close> requests in a row answer \<open>Registered\<close> and then
  \<open>AlreadyRegistered\<close>, and the event has one attendee more, not two.
\<close>
theorem register_twice:
  assumes "findById db i = Some e" and "valid_event e"
    and "now1 \<le> date e" and "now2 \<le> date e"
    and "uid \<notin> set (attendees e)"
    and "int (length (attendees e)) < capacity e"
  shows "rsvp db now1 i uid
           = (Registered (e\<lparr>attendees := attendees e @ [uid]\<rparr>),
              written db (e\<lparr>attendees := attendees e @ [uid]\<rparr>)) \<and>
         rsvp (written db (e\<lparr>attendees := attendees e @ [uid]\<rparr>)) now2 i uid
           = (AlreadyRegistered, written db (e\<lparr>attendees := attendees e @ [uid]\<rparr>)) \<and>
         findById (written db (e\<lparr>attendees := attendees e @ [uid]\<rparr>)) i
           = Some (e\<lparr>attendees := attendees e @ [uid]\<rparr>) \<and>
         length (attendees (e\<lparr>attendees := attendees e @ [uid]\<rparr>))
           = length (attendees e) + 1"
proof -
  let ?e' = "e\<lparr>attendees := attendees e @ [uid]\<rparr>"
  have found: "findById (written db ?e') i = Some ?e'"
    using assms(1) findById_SomeD[OF assms(1)] by (intro findById_written[where e = e]) auto
  have first: "rsvp db now1 i uid = (Registered ?e', written db ?e')"
    using assms by (simp add: rsvp_found)
  have second: "rsvp (written db ?e') now2 i uid = (AlreadyRegistered, written db ?e')"
    using assms(4) by (simp add: rsvp_found[OF found])
  from first second found show ?thesis by simp
qed

theorem register_twice_witness:
  "findById [party, reunion] 101 = Some party \<and> valid_event party \<and>
   1600000000000 \<le> date party \<and> 1600000000001 \<le> date party \<and>
   42 \<notin> set (attendees party) \<and> int (length (attendees party)) < capacity party \<and>
   rsvp [party, reunion] 1600000000000 101 42
     = (Registered (party\<lparr>attendees := [10, 11, 42]\<rparr>),
        [party\<lparr>attendees := [10, 11, 42]\<rparr>, reunion]) \<and>
   rsvp [party\<lparr>attendees := [10, 11, 42]\<rparr>, reunion] 1600000000001 101 42
     = (AlreadyRegistered, [party\<lparr>attendees := [10, 11, 42]\<rparr>, reunion]) \<and>
   length (attendees (party\<lparr>attendees := [10, 11, 42]\<rparr>)) = length (attendees party) + 1"
  using register_twice [of "[party, reunion]" 101 party 1600000000000 1600000000001 42]
  by (simp add: sample_lookup sample_valid sample_fields written_def)

subsection \<open>Cancellation\<close>

text \<open>
  Claim C6. \<open>cancel_rsvp\<close> answers \<open>EventNotFound\<close> when no event has the identifier;
  on a stored event it removes one occurrence of the user from the attendees and answers
  \<open>Cancelled\<close> when the user is among them, and answers \<open>NotRegistered\<close> otherwise.
  The start of the event plays no part: on an event that has already started, where
  \<open>rsvp\<close> answers \<open>EventEnded\<close>, a registered user is still removed, and
  \<open>EventEnded\<close> is never the answer of \<open>cancel_rsvp\<close>.
\<close>
theorem cancel_outcomes:
  "(findById db i = None \<longrightarrow> cancel_rsvp db i uid = (EventNotFound, db)) \<and>
   (findById db i = Some e \<longrightarrow> valid_event e \<longrightarrow>
      cancel_rsvp db i uid =
        (if uid \<in> set (attendees e)
         then (Cancelled (e\<lparr>attendees := remove1 uid (attendees e)\<rparr>),
               written db (e\<lparr>attendees := remove1 uid (attendees e)\<rparr>))
         else (NotRegistered, db))) \<and>
   (findById db i = Some e \<longrightarrow> valid_event e \<longrightarrow> uid \<in> set (attendees e) \<longrightarrow>
      date e < now \<longrightarrow>
      fst (rsvp db now i uid) = EventEnded \<and>
      fst (cancel_rsvp db i uid) = Cancelled (e\<lparr>attendees := remove1 uid (attendees e)\<rparr>)) \<and>
   fst (cancel_rsvp db i uid) \<noteq> EventEnded"
proof (cases "findById db i")
  case None
  then show ?thesis by (simp add: cancel_not_found EventNotFound_def EventEnded_def)
next
  case (Some e0)
  then show ?thesis
    by (simp add: cancel_found rsvp_found EventEnded_def NotRegistered_def Cancelled_def)
qed

theorem cancel_outcomes_witness:
  "findById [party, reunion] 103 = None \<and>
   cancel_rsvp [party, reunion] 103 10 = (EventNotFound, [party, reunion]) \<and>
   findById [party, reunion] 102 = Some reunion \<and> valid_event reunion \<and>
   10 \<in> set (attendees reunion) \<and> date reunion < 1600000000000 \<and>
   cancel_rsvp [party, reunion] 102 10
     = (Cancelled (reunion\<lparr>attendees := [12]\<rparr>), [party, reunion\<lparr>attendees := [12]\<rparr>]) \<and>
   fst (rsvp [party, reunion] 1600000000000 102 10) = EventEnded \<and>
   cancel_rsvp [party, reunion] 102 42 = (NotRegistered, [party, reunion]) \<and>
   fst (cancel_rsvp [party, reunion] 102 10) \<noteq> EventEnded"
  using cancel_outcomes [of "[party, reunion]" 103 10 reunion 0]
    cancel_outcomes [of "[party, reunion]" 102 10 reunion 1600000000000]
    cancel_outcomes [of "[party, reunion]" 102 42 reunion 1600000000000]
  by (simp add: sample_lookup sample_valid sample_fields written_def)
     (simp add: Cancelled_def EventEnded_def)

subsection \<open>Creation\<close>

text \<open>
  Claim C7, as amended. The capacity of a creation request is the number \<^verbatim>\<open>parseInt\<close>
  reads from the form field. When that number is below 1, or the field is read as no
  number, creation fails and stores nothing: the validation error of \<^verbatim>\<open>save\<close> is
  answered with status 500 (or the request was already refused with status 400 for a
  missing field). When that number is from 1 up to \<open>2 ^ 53\<close>, and the request has a
  title and a location that are not blank, a description, a date that casts and a fresh
  identifier, the new event is stored with that capacity and no attendees, and is the
  answer.
\<close>
theorem create_capacity_read_by_parseInt:
  "(given (req_capacity b) = Some c \<longrightarrow> parseInt c = Some n \<longrightarrow> n < 1 \<longrightarrow>
      snd (create_event castDate db new_id uid b req_file) = db \<and>
      (fst (create_event castDate db new_id uid b req_file)
         = Failure 500 ''Server error'' ValidationError \<or>
       fst (create_event castDate db new_id uid b req_file)
         = Message 400 ''Please provide all required fields'')) \<and>
   (given (req_capacity b) = Some c \<longrightarrow> parseInt c = None \<longrightarrow>
      snd (create_event castDate db new_id uid b req_file) = db \<and>
      (fst (create_event castDate db new_id uid b req_file)
         = Failure 500 ''Server error'' ValidationError \<or>
       fst (create_event castDate db new_id uid b req_file)
         = Message 400 ''Please provide all required fields'')) \<and>
   (given (req_title b) = Some t \<longrightarrow> trim t \<noteq> [] \<longrightarrow>
    given (req_description b) = Some d \<longrightarrow>
    given (req_date b) = Some dt \<longrightarrow> castDate dt = Some ms \<longrightarrow>
    given (req_location b) = Some l \<longrightarrow> trim l \<noteq> [] \<longrightarrow>
    given (req_capacity b) = Some c \<longrightarrow> parseInt c = Some n \<longrightarrow>
    1 \<le> n \<longrightarrow> n \<le> 2 ^ 53 \<longrightarrow>
    findById db new_id = None \<longrightarrow>
      create_event castDate db new_id uid b req_file
        = (Document 201
             (Some \<lparr>event_id = new_id, title = trim t, description = d, date = ms,
                    location = trim l, capacity = n, attendees = [],
                    image_path = (case req_file of None \<Rightarrow> []
                                  | Some name \<Rightarrow> js ''/uploads/'' @ name),
                    creator = uid\<rparr>),
           db @ [\<lparr>event_id = new_id, title = trim t, description = d, date = ms,
                   location = trim l, capacity = n, attendees = [],
                   image_path = (case req_file of None \<Rightarrow> []
                                 | Some name \<Rightarrow> js ''/uploads/'' @ name),
                   creator = uid\<rparr>]))"
proof (intro conjI impI)
  assume "given (req_capacity b) = Some c" "parseInt c = Some n" "n < 1"
  then have low: "snd (create_event castDate db new_id uid b req_file) = db \<and>
         (fst (create_event castDate db new_id uid b req_file)
            = Failure 500 ''Server error'' ValidationError \<or>
          fst (create_event castDate db new_id uid b req_file)
            = Message 400 ''Please provide all required fields'')"
    by (rule create_event_low_capacity)
  from low show "snd (create_event castDate db new_id uid b req_file) = db" by simp
  from low show "fst (create_event castDate db new_id uid b req_file)
            = Failure 500 ''Server error'' ValidationError \<or>
          fst (create_event castDate db new_id uid b req_file)
            = Message 400 ''Please provide all required fields''" by simp
next
  assume "given (req_capacity b) = Some c" "parseInt c = None"
  then have nan: "snd (create_event castDate db new_id uid b req_file) = db \<and>
         (fst (create_event castDate db new_id uid b req_file)
            = Failure 500 ''Server error'' ValidationError \<or>
          fst (create_event castDate db new_id uid b req_file)
            = Message 400 ''Please provide all required fields'')"
    by (rule create_event_no_number)
  from nan show "snd (create_event castDate db new_id uid b req_file) = db" by simp
  from nan show "fst (create_event castDate db new_id uid b req_file)
            = Failure 500 ''Server error'' ValidationError \<or>
          fst (create_event castDate db new_id uid b req_file)
            = Message 400 ''Please provide all required fields''" by simp
next
  assume "given (req_title b) = Some t" "trim t \<noteq> []" "given (req_description b) = Some d"
    "given (req_date b) = Some dt" "castDate dt = Some ms"
    "given (req_location b) = Some l" "trim l \<noteq> []"
    "given (req_capacity b) = Some c" "parseInt c = Some n" "1 \<le> n"
    "findById db new_id = None"
  then show "create_event castDate db new_id uid b req_file
        = (Document 201
             (Some \<lparr>event_id = new_id, title = trim t, description = d, date = ms,
                    location = trim l, capacity = n, attendees = [],
                    image_path = (case req_file of None \<Rightarrow> []
                                  | Some name \<Rightarrow> js ''/uploads/'' @ name),
                    creator = uid\<rparr>),
           db @ [\<lparr>event_id = new_id, title = trim t, description = d, date = ms,
                   location = trim l, capacity = n, attendees = [],
                   image_path = (case req_file of None \<Rightarrow> []
                                 | Some name \<Rightarrow> js ''/uploads/'' @ name),
                   creator = uid\<rparr>])"
    by (rule create_event_ok) simp
qed

theorem create_capacity_read_by_parseInt_witness:
  "given (req_capacity (sample_body (js ''0''))) = Some (js ''0'') \<and>
   parseInt (js ''0'') = Some 0 \<and>
   create_event sample_castDate [party, reunion] 103 7 (sample_body (js ''0'')) None
     = (Failure 500 ''Server error'' ValidationError, [party, reunion]) \<and>
   parseInt (js ''-3'') = Some (- 3) \<and>
   create_event sample_castDate [party, reunion] 103 7 (sample_body (js ''-3'')) None
     = (Failure 500 ''Server error'' ValidationError, [party, reunion]) \<and>
   parseInt (js ''abc'') = None \<and>
   create_event sample_castDate [party, reunion] 103 7 (sample_body (js ''abc'')) None
     = (Failure 500 ''Server error'' ValidationError, [party, reunion]) \<and>
   given (req_title (sample_body (js ''12''))) = Some (js ''  Picnic '') \<and>
   trim (js ''  Picnic '') = js ''Picnic'' \<and>
   parseInt (js ''12'') = Some 12 \<and> findById [party, reunion] 103 = None \<and>
   create_event sample_castDate [party, reunion] 103 7 (sample_body (js ''12'')) None
     = (Document 201 (Some (picnic 12)), [party, reunion, picnic 12]) \<and>
   capacity (picnic 12) = 12 \<and> attendees (picnic 12) = []"
  using create_capacity_read_by_parseInt
    [where b = "sample_body (js ''0'')" and c = "js ''0''" and n = 0
       and castDate = sample_castDate and db = "[party, reunion]" and new_id = 103
       and uid = 7 and req_file = None and t = "js ''  Picnic ''"
       and d = "js ''Lunch outside''" and dt = "js ''2030-01-01''" and l = "js ''Park''"
       and ms = 1893456000000]
    create_capacity_read_by_parseInt
    [where b = "sample_body (js ''-3'')" and c = "js ''-3''" and n = "- 3"
       and castDate = sample_castDate and db = "[party, reunion]" and new_id = 103
       and uid = 7 and req_file = None and t = "js ''  Picnic ''"
       and d = "js ''Lunch outside''" and dt = "js ''2030-01-01''" and l = "js ''Park''"
       and ms = 1893456000000]
    create_capacity_read_by_parseInt
    [where b = "sample_body (js ''abc'')" and c = "js ''abc''" and n = 0
       and castDate = sample_castDate and db = "[party, reunion]" and new_id = 103
       and uid = 7 and req_file = None and t = "js ''  Picnic ''"
       and d = "js ''Lunch outside''" and dt = "js ''2030-01-01''" and l = "js ''Park''"
       and ms = 1893456000000]
    create_capacity_read_by_parseInt
    [where b = "sample_body (js ''12'')" and c = "js ''12''" and n = 12
       and castDate = sample_castDate and db = "[party, reunion]" and new_id = 103
       and uid = 7 and req_file = None and t = "js ''  Picnic ''"
       and d = "js ''Lunch outside''" and dt = "js ''2030-01-01''" and l = "js ''Park''"
       and ms = 1893456000000]
  by (simp add: sample_body_given sample_casts sample_lookup js_not_empty sample_fields
      sample_rejected sample_create sample_capacity_strings)

text \<open>
  Against claim C7 as it is stated: the capacity \<^verbatim>\<open>5e-7\<close> denotes a number below 1,
  and \<^verbatim>\<open>parseInt\<close> reads it as 5. The event is created, with capacity 5.
\<close>
theorem capacity_exponent_created:
  "given (req_capacity (sample_body (js ''5e-7''))) = Some (js ''5e-7'') \<and>
   parseInt (js ''5e-7'') = Some 5 \<and>
   create_event sample_castDate [party, reunion] 103 7 (sample_body (js ''5e-7'')) None
     = (Document 201 (Some (picnic 5)), [party, reunion, picnic 5]) \<and>
   capacity (picnic 5) = 5 \<and> attendees (picnic 5) = []"
  by (simp add: sample_create sample_capacity_strings sample_body_given js_not_empty
      sample_fields)

subsection \<open>Listings\<close>

text \<open>
  Claim C8. The three listings answer with lists in ascending order of date: all stored
  events, exactly the events whose creator is the user, and exactly the events whose
  attendees contain the user.
\<close>
theorem listings_sorted_by_date:
  "\<exists>xs ys zs.
     list_events db = Documents 200 xs \<and> sorted (map date xs) \<and> mset xs = mset db \<and>
     user_created db uid = Documents 200 ys \<and> sorted (map date ys) \<and>
     mset ys = filter_mset (\<lambda>e. creator e = uid) (mset db) \<and>
     user_attending db uid = Documents 200 zs \<and> sorted (map date zs) \<and>
     mset zs = filter_mset (\<lambda>e. uid \<in> set (attendees e)) (mset db)"
  by (simp add: list_events_def user_created_def user_attending_def)

subsection \<open>Frame of a successful registration or cancellation\<close>

text \<open>
  Claim C9. A successful \<open>rsvp\<close> stores the event with the user appended to its
  attendees, one element more, and a successful \<open>cancel_rsvp\<close> stores it with one
  occurrence of the user removed, one element fewer; title, description, date, location,
  capacity, creator, image and identifier are the ones the event had, and no other event
  of the collection changes.
\<close>
theorem success_changes_attendees_only:
  assumes "findById db i = Some e"
  shows "(rsvp db now i uid = (Registered e', db') \<longrightarrow>
            e' = e\<lparr>attendees := attendees e @ [uid]\<rparr> \<and>
            length (attendees e') = length (attendees e) + 1 \<and>
            title e' = title e \<and> description e' = description e \<and> date e' = date e \<and>
            location e' = location e \<and> capacity e' = capacity e \<and>
            creator e' = creator e \<and> image_path e' = image_path e \<and>
            event_id e' = event_id e \<and> db' = written db e') \<and>
         (cancel_rsvp db i uid = (Cancelled e', db') \<longrightarrow>
            e' = e\<lparr>attendees := remove1 uid (attendees e)\<rparr> \<and>
            length (attendees e') + 1 = length (attendees e) \<and>
            title e' = title e \<and> description e' = description e \<and> date e' = date e \<and>
            location e' = location e \<and> capacity e' = capacity e \<and>
            creator e' = creator e \<and> image_path e' = image_path e \<and>
            event_id e' = event_id e \<and> db' = written db e')"
proof -
  have reg: "rsvp db now i uid = (Registered e', db') \<Longrightarrow>
      e' = e\<lparr>attendees := attendees e @ [uid]\<rparr> \<and> db' = written db e'"
    using assms
    by (auto simp: rsvp_found EventEnded_def AlreadyRegistered_def Full_def Registered_def
        split: if_splits)
  have can: "cancel_rsvp db i uid = (Cancelled e', db') \<Longrightarrow>
      e' = e\<lparr>attendees := remove1 uid (attendees e)\<rparr> \<and> db' = written db e' \<and>
      uid \<in> set (attendees e)"
    using assms
    by (auto simp: cancel_found NotRegistered_def Cancelled_def split: if_splits)
  show ?thesis
  proof (intro conjI impI)
    assume a: "cancel_rsvp db i uid = (Cancelled e', db')"
    from can[OF a] have "uid \<in> set (attendees e)" and "attendees e' = remove1 uid (attendees e)"
      by simp_all
    then have "length (attendees e') = length (attendees e) - 1" and "attendees e \<noteq> []"
      by (auto simp: length_remove1)
    then show "length (attendees e') + 1 = length (attendees e)"
      by (cases "attendees e") simp_all
  qed (use reg can in auto)
qed

theorem success_changes_attendees_only_witness:
  "findById [party, reunion] 101 = Some party \<and>
   rsvp [party, reunion] 1600000000000 101 42
     = (Registered (party\<lparr>attendees := [10, 11, 42]\<rparr>),
        [party\<lparr>attendees := [10, 11, 42]\<rparr>, reunion]) \<and>
   capacity (party\<lparr>attendees := [10, 11, 42]\<rparr>) = capacity party \<and>
   cancel_rsvp [party, reunion] 101 10
     = (Cancelled (party\<lparr>attendees := [11]\<rparr>), [party\<lparr>attendees := [11]\<rparr>, reunion]) \<and>
   length (attendees (party\<lparr>attendees := [11]\<rparr>)) + 1 = length (attendees party)"
  using success_changes_attendees_only
    [of "[party, reunion]" 101 party 1600000000000 42 "party\<lparr>attendees := [10, 11, 42]\<rparr>"
        "[party\<lparr>attendees := [10, 11, 42]\<rparr>, reunion]"]
    success_changes_attendees_only
    [of "[party, reunion]" 101 party 0 10 "party\<lparr>attendees := [11]\<rparr>"
        "[party\<lparr>attendees := [11]\<rparr>, reunion]"]
  by (simp add: rsvp_found cancel_found sample_lookup sample_valid sample_fields written_def)

subsection \<open>Conversion of the capacity\<close>

text \<open>
  Claim C10, as amended. The capacity of a creation or update request is converted by
  \<^verbatim>\<open>parseInt\<close>. For a capacity written as a decimal numeral, with an optional minus
  sign, at least one and at most 15 digits before the point and any digits after it,
  \<^verbatim>\<open>parseInt\<close> returns the number the numeral denotes truncated toward zero; whenever
  creation or update stores an event for such a capacity, the stored capacity is that
  truncation; and an update that names only such a capacity, of at least 1 after
  truncation, is stored rather than rejected. (\<^verbatim>\<open>5.9\<close> stores 5 and \<^verbatim>\<open>12.75\<close>
  stores 12.)
\<close>
theorem decimal_capacity_truncated:
  assumes "ip \<noteq> []" and "decimal_digits ip" and "decimal_digits fp" and "length ip \<le> 15"
  shows "parseInt (decimal_numeral neg ip fp)
           = Some (trunc_toward_zero (decimal_value neg ip fp)) \<and>
         (req_capacity b = Some (decimal_numeral neg ip fp) \<longrightarrow>
          create_event castDate db new_id uid b req_file = (Document 201 (Some ec), dbc) \<longrightarrow>
            capacity ec = trunc_toward_zero (decimal_value neg ip fp)) \<and>
         (req_capacity b = Some (decimal_numeral neg ip fp) \<longrightarrow>
          update_event castDate db i uid b req_file = (Document 200 (Some eu), dbu) \<longrightarrow>
            capacity eu = trunc_toward_zero (decimal_value neg ip fp)) \<and>
         (findById db i = Some e \<longrightarrow> creator e = uid \<longrightarrow> valid_event e \<longrightarrow>
          1 \<le> trunc_toward_zero (decimal_value neg ip fp) \<longrightarrow>
            update_event castDate db i uid (capacity_only (decimal_numeral neg ip fp)) None
              = (Document 200
                   (Some (e\<lparr>capacity := trunc_toward_zero (decimal_value neg ip fp)\<rparr>)),
                 written db (e\<lparr>capacity := trunc_toward_zero (decimal_value neg ip fp)\<rparr>)))"
proof (intro conjI impI)
  show p: "parseInt (decimal_numeral neg ip fp)
           = Some (trunc_toward_zero (decimal_value neg ip fp))"
    using assms(1-3) by (rule parseInt_decimal_numeral)
  {
    assume b: "req_capacity b = Some (decimal_numeral neg ip fp)"
      and c: "create_event castDate db new_id uid b req_file = (Document 201 (Some ec), dbc)"
    from create_event_cases[of castDate db new_id uid b req_file] c
    obtain s where "given (req_capacity b) = Some s" "parseInt s = Some (capacity ec)"
      by auto
    with b p show "capacity ec = trunc_toward_zero (decimal_value neg ip fp)"
      by (simp add: decimal_numeral_given)
  }
  {
    assume b: "req_capacity b = Some (decimal_numeral neg ip fp)"
      and u: "update_event castDate db i uid b req_file = (Document 200 (Some eu), dbu)"
    from update_event_stored[OF u] obtain e0 where
      "assign_fields castDate e0 b req_file = Some eu" by blast
    from assign_fields_SomeD(4)[OF this] b p
    show "capacity eu = trunc_toward_zero (decimal_value neg ip fp)"
      by (simp add: decimal_numeral_given)
  }
  {
    assume "findById db i = Some e" "creator e = uid" "valid_event e"
      "1 \<le> trunc_toward_zero (decimal_value neg ip fp)"
    then show "update_event castDate db i uid (capacity_only (decimal_numeral neg ip fp)) None
              = (Document 200
                   (Some (e\<lparr>capacity := trunc_toward_zero (decimal_value neg ip fp)\<rparr>)),
                 written db (e\<lparr>capacity := trunc_toward_zero (decimal_value neg ip fp)\<rparr>))"
      using p by (intro update_capacity_only) (simp_all add: decimal_numeral_def js_def)
  }
qed

theorem decimal_capacity_truncated_witness:
  "js ''12'' \<noteq> [] \<and> decimal_digits (js ''12'') \<and> decimal_digits (js ''75'') \<and>
   length (js ''12'') \<le> 15 \<and>
   decimal_numeral False (js ''12'') (js ''75'') = js ''12.75'' \<and>
   trunc_toward_zero (decimal_value False (js ''12'') (js ''75'')) = 12 \<and>
   parseInt (js ''12.75'') = Some 12 \<and>
   decimal_numeral True (js ''120'') (js ''5'') = js ''-120.5'' \<and>
   trunc_toward_zero (decimal_value True (js ''120'') (js ''5'')) = - 120 \<and>
   parseInt (js ''-120.5'') = Some (- 120) \<and>
   parseInt (js ''5.9'') = Some 5 \<and>
   create_event sample_castDate [party, reunion] 103 7 (sample_body (js ''12.75'')) None
     = (Document 201 (Some (picnic 12)), [party, reunion, picnic 12]) \<and>
   capacity (picnic 12) = 12 \<and>
   update_event sample_castDate [party, reunion] 101 7 (capacity_only (js ''12.75'')) None
     = (Document 200 (Some (party\<lparr>capacity := 12\<rparr>)), [party\<lparr>capacity := 12\<rparr>, reunion]) \<and>
   update_event sample_castDate [party, reunion] 101 7 (capacity_only (js ''5.9'')) None
     = (Document 200 (Some (party\<lparr>capacity := 5\<rparr>)), [party\<lparr>capacity := 5\<rparr>, reunion])"
  using decimal_capacity_truncated
    [where ip = "js ''12''" and fp = "js ''75''" and neg = False
       and b = "sample_body (js ''12.75'')" and castDate = sample_castDate
       and db = "[party, reunion]" and new_id = 103 and uid = 7 and req_file = None
       and i = 101 and e = party and ec = "picnic 12" and dbc = "[party, reunion, picnic 12]"
       and eu = party and dbu = "[]"]
    decimal_capacity_truncated
    [where ip = "js ''120''" and fp = "js ''5''" and neg = True
       and b = "capacity_only (js ''-120.5'')" and castDate = sample_castDate
       and db = "[party, reunion]" and new_id = 103 and uid = 7 and req_file = None
       and i = 101 and e = party and ec = party and dbc = "[]"
       and eu = party and dbu = "[]"]
    decimal_capacity_truncated
    [where ip = "js ''5''" and fp = "js ''9''" and neg = False
       and b = "capacity_only (js ''5.9'')" and castDate = sample_castDate
       and db = "[party, reunion]" and new_id = 103 and uid = 7 and req_file = None
       and i = 101 and e = party and ec = party and dbc = "[]"
       and eu = "party\<lparr>capacity := 5\<rparr>" and dbu = "[party\<lparr>capacity := 5\<rparr>, reunion]"]
  by (simp add: sample_numerals sample_truncations sample_lookup sample_fields sample_valid
      written_def js_not_empty sample_create sample_update sample_capacity_strings length_js
      sample_req_capacity)

text \<open>
  Against claim C10 as it is stated: the capacity \<^verbatim>\<open>25e-1\<close> denotes 2.5, whose
  truncation is 2, and \<^verbatim>\<open>parseInt\<close> reads it as 25, which the update stores; and the
  capacity \<^verbatim>\<open>.5\<close> is read as no number, so the update is rejected.
\<close>
theorem capacity_exponent_not_truncated:
  "parseInt (js ''25e-1'') = Some 25 \<and>
   update_event sample_castDate [party, reunion] 101 7 (capacity_only (js ''25e-1'')) None
     = (Document 200 (Some (party\<lparr>capacity := 25\<rparr>)), [party\<lparr>capacity := 25\<rparr>, reunion]) \<and>
   capacity (party\<lparr>capacity := 25\<rparr>) = 25 \<and>
   parseInt (js ''.5'') = None \<and>
   update_event sample_castDate [party, reunion] 101 7 (capacity_only (js ''.5'')) None
     = (Failure 500 ''Server error'' ValidationError, [party, reunion])"
  by (simp add: sample_update sample_update_rejected sample_capacity_strings js_not_empty)

end
